theory Spec2Isabelle
  imports Complex_Main
begin

section \<open>JavaScript values used by the werewolf agent core\<close>

text \<open>
  The two classes of \<^verbatim>\<open>werewolfCommunicationSystem.ts\<close> are embedded as state-passing
  functions.  A JavaScript string is the list of its UTF-16 code units; the keyword tables
  of the source are CJK literals and are written out as code-unit lists.  A JavaScript
  number that holds a player id, a round or a count is a natural number (differences are
  taken in \<open>int\<close>); a number that holds a score, a priority, a confidence or a relevance
  is an exact rational, so a decimal literal of the source denotes its decimal value.
  Every exception the source can raise is a value of \<open>js_error\<close>.
\<close>

type_synonym jsstring = "nat list"
type_synonym PlayerId = nat
type_synonym Round = nat

datatype js_error = TypeError

fun startsWith :: "jsstring \<Rightarrow> jsstring \<Rightarrow> bool" where
  "startsWith s [] = True"
| "startsWith [] (p # ps) = False"
| "startsWith (c # cs) (p # ps) = (c = p \<and> startsWith cs ps)"

text \<open>\<^verbatim>\<open>s.includes(pat)\<close>: \<open>pat\<close> occurs in \<open>s\<close> as a contiguous block.\<close>

fun js_includes :: "jsstring \<Rightarrow> jsstring \<Rightarrow> bool" where
  "js_includes [] pat = (pat = [])"
| "js_includes (c # cs) pat = (startsWith (c # cs) pat \<or> js_includes cs pat)"

text \<open>
  \<^verbatim>\<open>s.toLowerCase()\<close>, unit by unit.  The basic Latin capitals are mapped to their small
  letters; every other code unit is left as it is (the keyword tables hold CJK ideographs
  only, which no case mapping changes or produces).
\<close>

definition lowerUnit :: "nat \<Rightarrow> nat" where
  "lowerUnit c = (if 65 \<le> c \<and> c \<le> 90 then c + 32 else c)"

definition toLowerCase :: "jsstring \<Rightarrow> jsstring" where
  "toLowerCase s = map lowerUnit s"

text \<open>\<^verbatim>\<open>xs.join(sep)\<close> on an array of strings.\<close>

fun join :: "jsstring \<Rightarrow> jsstring list \<Rightarrow> jsstring" where
  "join sep [] = []"
| "join sep [x] = x"
| "join sep (x # y # ys) = x @ sep @ join sep (y # ys)"

text \<open>Decimal rendering of a non-negative integer (\<^verbatim>\<open>n.toString()\<close>, template literals).\<close>

fun natToString :: "nat \<Rightarrow> jsstring" where
  "natToString n = (if n < 10 then [48 + n] else natToString (n div 10) @ [48 + n mod 10])"

declare natToString.simps [simp del]

definition intToString :: "int \<Rightarrow> jsstring" where
  "intToString i = (if i < 0 then 45 # natToString (nat (- i)) else natToString (nat i))"

text \<open>
  Rendering of a number with a fractional part: integer part, then at most 17 fractional
  digits of the exact value (all scores the source renders are short decimals).
\<close>

fun fracDigits :: "nat \<Rightarrow> rat \<Rightarrow> jsstring" where
  "fracDigits 0 r = []"
| "fracDigits (Suc k) r =
     (if r = 0 then []
      else (48 + nat \<lfloor>r * 10\<rfloor>) # fracDigits k (r * 10 - of_int \<lfloor>r * 10\<rfloor>))"

definition numberToString :: "rat \<Rightarrow> jsstring" where
  "numberToString q =
     (let a = \<bar>q\<bar>; ip = \<lfloor>a\<rfloor>; fr = a - of_int ip
      in (if q < 0 then [45] else []) @ natToString (nat ip) @
         (if fr = 0 then [] else 46 # fracDigits 17 fr))"

text \<open>\<^verbatim>\<open>Math.round\<close>: the nearest integer, halves towards plus infinity.\<close>

definition Math_round :: "rat \<Rightarrow> int" where
  "Math_round q = \<lfloor>q + 1 / 2\<rfloor>"

text \<open>
  \<^verbatim>\<open>xs.sort(cmp)\<close> is stable: an element moves in front of another only when the
  comparator is positive for the pair in their present order.
\<close>

fun sortInsert :: "('a \<Rightarrow> 'a \<Rightarrow> rat) \<Rightarrow> 'a \<Rightarrow> 'a list \<Rightarrow> 'a list" where
  "sortInsert cmp x [] = [x]"
| "sortInsert cmp x (y # ys) =
     (if cmp x y \<le> 0 then x # y # ys else y # sortInsert cmp x ys)"

fun js_sort :: "('a \<Rightarrow> 'a \<Rightarrow> rat) \<Rightarrow> 'a list \<Rightarrow> 'a list" where
  "js_sort cmp [] = []"
| "js_sort cmp (x # xs) = sortInsert cmp x (js_sort cmp xs)"

text \<open>\<^verbatim>\<open>xs.slice(0, n)\<close>: a negative \<open>n\<close> counts from the end.\<close>

definition slice0 :: "int \<Rightarrow> 'a list \<Rightarrow> 'a list" where
  "slice0 n xs = (if 0 \<le> n then take (nat n) xs else take (nat (int (length xs) + n)) xs)"

text \<open>
  A JavaScript \<^verbatim>\<open>Map\<close> (and an object read through \<^verbatim>\<open>Object.entries\<close> or
  \<^verbatim>\<open>Object.values\<close>) is the list of its entries in iteration order.
\<close>

type_synonym ('k, 'v) jsmap = "('k \<times> 'v) list"

definition Map_get :: "('k, 'v) jsmap \<Rightarrow> 'k \<Rightarrow> 'v option" where
  "Map_get m k = map_of m k"

definition Map_has :: "('k, 'v) jsmap \<Rightarrow> 'k \<Rightarrow> bool" where
  "Map_has m k = (map_of m k \<noteq> None)"

fun Map_set :: "('k, 'v) jsmap \<Rightarrow> 'k \<Rightarrow> 'v \<Rightarrow> ('k, 'v) jsmap" where
  "Map_set [] k v = [(k, v)]"
| "Map_set ((k', v') # m) k v =
     (if k' = k then (k, v) # m else (k', v') # Map_set m k v)"

definition Map_delete :: "('k, 'v) jsmap \<Rightarrow> 'k \<Rightarrow> ('k, 'v) jsmap" where
  "Map_delete m k = filter (\<lambda>e. fst e \<noteq> k) m"

text \<open>Truthiness of a player id that may be \<^verbatim>\<open>null\<close> or \<^verbatim>\<open>undefined\<close>: the number 0 is falsy.\<close>

fun truthy :: "PlayerId option \<Rightarrow> bool" where
  "truthy None = False"
| "truthy (Some n) = (n \<noteq> 0)"

section \<open>String literals of the source\<close>

abbreviation s_seer :: jsstring  \<comment> \<open>seer\<close>
  where "s_seer \<equiv> [39044, 35328, 23478]"

abbreviation s_inspect :: jsstring  \<comment> \<open>inspect\<close>
  where "s_inspect \<equiv> [26597, 39564]"

abbreviation s_checked_last_night :: jsstring  \<comment> \<open>last night I checked\<close>
  where "s_checked_last_night \<equiv> [26152, 26202, 25105, 26597, 20102]"

abbreviation s_witch :: jsstring  \<comment> \<open>witch\<close>
  where "s_witch \<equiv> [22899, 24043]"

abbreviation s_potion :: jsstring  \<comment> \<open>potion\<close>
  where "s_potion \<equiv> [33647, 27700]"

abbreviation s_save :: jsstring  \<comment> \<open>save someone\<close>
  where "s_save \<equiv> [25937, 20154]"

abbreviation s_poison :: jsstring  \<comment> \<open>poison to death\<close>
  where "s_poison \<equiv> [27602, 27515]"

abbreviation s_werewolf :: jsstring  \<comment> \<open>werewolf\<close>
  where "s_werewolf \<equiv> [29436, 20154]"

abbreviation s_think :: jsstring  \<comment> \<open>think that\<close>
  where "s_think \<equiv> [35748, 20026]"

abbreviation s_suspect :: jsstring  \<comment> \<open>suspect\<close>
  where "s_suspect \<equiv> [24576, 30097]"

abbreviation s_hao_suspects :: jsstring  \<comment> \<open>no. suspects\<close>
  where "s_hao_suspects \<equiv> [21495, 24576, 30097]"

abbreviation s_hao_is_werewolf :: jsstring  \<comment> \<open>no. is a werewolf\<close>
  where "s_hao_is_werewolf \<equiv> [21495, 26159, 29436, 20154]"

abbreviation s_suggest_kill_first :: jsstring  \<comment> \<open>suggest killing first\<close>
  where "s_suggest_kill_first \<equiv> [24314, 35758, 20248, 20808, 20987, 26432]"

abbreviation s_hao_likely_god :: jsstring  \<comment> \<open>no., probably a god role\<close>
  where "s_hao_likely_god \<equiv> [21495, 65292, 30097, 20284, 31070, 32844, 35282, 33394]"

abbreviation s_remove_god_threat :: jsstring  \<comment> \<open>remove the god-role threat\<close>
  where "s_remove_god_threat \<equiv> [28040, 38500, 31070, 32844, 35282, 33394, 23041, 32961]"

abbreviation s_we_are_suspected :: jsstring  \<comment> \<open>we are suspected, disguise and cooperate better\<close>
  where "s_we_are_suspected \<equiv> [25105, 20204, 34987, 24576, 30097, 20102, 65292, 38656, 35201, 26356, 22909, 22320, 20266, 35013, 21644, 37197, 21512]"

abbreviation s_handle_high_threat :: jsstring  \<comment> \<open>respond to a high-threat situation\<close>
  where "s_handle_high_threat \<equiv> [24212, 23545, 39640, 23041, 32961, 23616, 21183]"

abbreviation s_hao_relatively_safe :: jsstring  \<comment> \<open>no. is relatively safe, suggested as kill target\<close>
  where "s_hao_relatively_safe \<equiv> [21495, 30456, 23545, 23433, 20840, 65292, 24314, 35758, 20316, 20026, 20987, 26432, 30446, 26631]"

abbreviation s_choose_low_risk :: jsstring  \<comment> \<open>choose a lower-risk target\<close>
  where "s_choose_low_risk \<equiv> [36873, 25321, 39118, 38505, 36739, 20302, 30340, 30446, 26631]"

abbreviation s_analyse_carefully :: jsstring  \<comment> \<open>analyse carefully, find the best moment\<close>
  where "s_analyse_carefully \<equiv> [38656, 35201, 20180, 32454, 20998, 26512, 23616, 21183, 65292, 23547, 25214, 26368, 20339, 20987, 26432, 26102, 26426]"

abbreviation s_routine_discussion :: jsstring  \<comment> \<open>routine strategy discussion\<close>
  where "s_routine_discussion \<equiv> [24120, 35268, 31574, 30053, 35752, 35770]"

abbreviation s_god :: jsstring  \<comment> \<open>god role\<close>
  where "s_god \<equiv> [31070, 32844]"

abbreviation s_threat :: jsstring  \<comment> \<open>threat\<close>
  where "s_threat \<equiv> [23041, 32961]"

abbreviation s_default_choice :: jsstring  \<comment> \<open>default choice\<close>
  where "s_default_choice \<equiv> [40664, 35748, 36873, 25321]"

abbreviation s_semicolon_sp :: jsstring  \<comment> \<open>separator\<close>
  where "s_semicolon_sp \<equiv> [59, 32]"

abbreviation s_comma_sp :: jsstring  \<comment> \<open>separator\<close>
  where "s_comma_sp \<equiv> [44, 32]"

abbreviation s_werewolf_msg :: jsstring  \<comment> \<open>message id prefix\<close>
  where "s_werewolf_msg \<equiv> [119, 101, 114, 101, 119, 111, 108, 102, 95, 109, 115, 103, 95]"

abbreviation s_memory :: jsstring  \<comment> \<open>memory id prefix\<close>
  where "s_memory \<equiv> [109, 101, 109, 111, 114, 121, 95]"

abbreviation s_underscore :: jsstring  \<comment> \<open>underscore\<close>
  where "s_underscore \<equiv> [95]"

abbreviation s_contradiction_found :: jsstring  \<comment> \<open>contradiction detected: \<close>
  where "s_contradiction_found \<equiv> [26816, 27979, 21040, 30683, 30462, 58, 32]"

abbreviation s_deduced_role :: jsstring  \<comment> \<open>deduced role: \<close>
  where "s_deduced_role \<equiv> [25512, 26029, 35282, 33394, 58, 32]"

abbreviation s_open_confidence :: jsstring  \<comment> \<open> (confidence: \<close>
  where "s_open_confidence \<equiv> [32, 40, 32622, 20449, 24230, 58, 32]"

abbreviation s_close_paren :: jsstring  \<comment> \<open>closing parenthesis\<close>
  where "s_close_paren \<equiv> [41]"

abbreviation s_percent_close :: jsstring  \<comment> \<open>percent sign, closing parenthesis\<close>
  where "s_percent_close \<equiv> [37, 41]"

abbreviation s_strategy_colon :: jsstring  \<comment> \<open>strategy: \<close>
  where "s_strategy_colon \<equiv> [31574, 30053, 58, 32]"

abbreviation s_bar_reason :: jsstring  \<comment> \<open> | reason: \<close>
  where "s_bar_reason \<equiv> [32, 124, 32, 29702, 30001, 58, 32]"

abbreviation s_no_memory :: jsstring  \<comment> \<open>no important memory yet\<close>
  where "s_no_memory \<equiv> [26242, 26080, 37325, 35201, 35760, 24518, 20449, 24687, 12290]"

abbreviation s_di :: jsstring  \<comment> \<open>ordinal prefix\<close>
  where "s_di \<equiv> [31532]"

abbreviation s_lun_colon :: jsstring  \<comment> \<open>round: \<close>
  where "s_lun_colon \<equiv> [36718, 58, 32]"

abbreviation s_important_memory :: jsstring  \<comment> \<open>important memory: + newline\<close>
  where "s_important_memory \<equiv> [37325, 35201, 35760, 24518, 20449, 24687, 58, 10]"

abbreviation s_newline :: jsstring  \<comment> \<open>newline\<close>
  where "s_newline \<equiv> [10]"

abbreviation s_likely_werewolf :: jsstring  \<comment> \<open>probably a werewolf\<close>
  where "s_likely_werewolf \<equiv> [30097, 20284, 29436, 20154]"

abbreviation s_speech_contradictory :: jsstring  \<comment> \<open>contradictory speech\<close>
  where "s_speech_contradictory \<equiv> [21457, 35328, 30683, 30462]"

abbreviation s_suspicious :: jsstring  \<comment> \<open>suspicious\<close>
  where "s_suspicious \<equiv> [21487, 30097]"

abbreviation s_vote_suspicious :: jsstring  \<comment> \<open>suspicious voting behaviour\<close>
  where "s_vote_suspicious \<equiv> [25237, 31080, 34892, 20026, 21487, 30097]"

abbreviation s_kill :: jsstring  \<comment> \<open>kill\<close>
  where "s_kill \<equiv> [26432]"

abbreviation s_werewolf_related :: jsstring  \<comment> \<open>werewolf-related\<close>
  where "s_werewolf_related \<equiv> [29436, 20154, 30456, 20851]"

abbreviation s_seer_related :: jsstring  \<comment> \<open>seer-related\<close>
  where "s_seer_related \<equiv> [39044, 35328, 23478, 30456, 20851]"

abbreviation s_medicine :: jsstring  \<comment> \<open>medicine\<close>
  where "s_medicine \<equiv> [33647]"

abbreviation s_witch_related :: jsstring  \<comment> \<open>witch-related\<close>
  where "s_witch_related \<equiv> [22899, 24043, 30456, 20851]"

abbreviation s_vote :: jsstring  \<comment> \<open>vote\<close>
  where "s_vote \<equiv> [25237, 31080]"

abbreviation s_eliminated :: jsstring  \<comment> \<open>eliminated\<close>
  where "s_eliminated \<equiv> [20986, 23616]"

abbreviation s_vote_related :: jsstring  \<comment> \<open>vote-related\<close>
  where "s_vote_related \<equiv> [25237, 31080, 30456, 20851]"

abbreviation s_last_night :: jsstring  \<comment> \<open>last night\<close>
  where "s_last_night \<equiv> [26152, 26202]"

abbreviation s_at_night :: jsstring  \<comment> \<open>at night\<close>
  where "s_at_night \<equiv> [22812, 37324]"

abbreviation s_night_info :: jsstring  \<comment> \<open>night information\<close>
  where "s_night_info \<equiv> [22812, 38388, 20449, 24687]"

abbreviation s_hao_colon :: jsstring  \<comment> \<open>no.: \<close>
  where "s_hao_colon \<equiv> [21495, 58, 32]"

abbreviation s_general_speech :: jsstring  \<comment> \<open>general speech\<close>
  where "s_general_speech \<equiv> [19968, 33324, 21457, 35328]"

abbreviation s_i_am_seer :: jsstring  \<comment> \<open>I am the seer\<close>
  where "s_i_am_seer \<equiv> [25105, 26159, 39044, 35328, 23478]"

abbreviation s_i_am_not_seer :: jsstring  \<comment> \<open>I am not the seer\<close>
  where "s_i_am_not_seer \<equiv> [25105, 19981, 26159, 39044, 35328, 23478]"

abbreviation s_role_claim_contradiction :: jsstring  \<comment> \<open>role claims contradict each other\<close>
  where "s_role_claim_contradiction \<equiv> [35282, 33394, 22768, 26126, 21069, 21518, 30683, 30462]"

abbreviation s_i_am_witch :: jsstring  \<comment> \<open>I am the witch\<close>
  where "s_i_am_witch \<equiv> [25105, 26159, 22899, 24043]"

abbreviation s_i_am_not_witch :: jsstring  \<comment> \<open>I am not the witch\<close>
  where "s_i_am_not_witch \<equiv> [25105, 19981, 26159, 22899, 24043]"

abbreviation s_inspect_contradiction :: jsstring  \<comment> \<open>inspection results may contradict\<close>
  where "s_inspect_contradiction \<equiv> [26597, 39564, 32467, 26524, 21487, 33021, 30683, 30462]"

abbreviation s_follower :: jsstring  \<comment> \<open>often follows votes; maybe werewolf or cautious villager\<close>
  where "s_follower \<equiv> [32463, 24120, 36319, 31080, 65292, 21487, 33021, 26159, 29436, 20154, 25110, 20445, 23432, 26449, 27665]"

abbreviation s_scatter :: jsstring  \<comment> \<open>scattered votes; maybe stirring\<close>
  where "s_scatter \<equiv> [25237, 31080, 20998, 25955, 65292, 21487, 33021, 22312, 25605, 23616]"

abbreviation s_i_am_villager :: jsstring  \<comment> \<open>I am a villager\<close>
  where "s_i_am_villager \<equiv> [25105, 26159, 26449, 27665]"

abbreviation s_good_person :: jsstring  \<comment> \<open>good person\<close>
  where "s_good_person \<equiv> [22909, 20154]"

abbreviation s_unsure :: jsstring  \<comment> \<open>not sure\<close>
  where "s_unsure \<equiv> [19981, 30830, 23450]"

abbreviation s_maybe :: jsstring  \<comment> \<open>maybe\<close>
  where "s_maybe \<equiv> [21487, 33021]"

abbreviation s_wolf_primary :: jsstring  \<comment> \<open>werewolf primary strategy\<close>
  where "s_wolf_primary \<equiv> [20266, 35013, 26449, 27665, 65292, 23547, 25214, 31070, 32844, 30446, 26631]"

abbreviation s_wolf_reasoning :: jsstring  \<comment> \<open>werewolf reasoning\<close>
  where "s_wolf_reasoning \<equiv> [20316, 20026, 29436, 20154, 38656, 35201, 38544, 34255, 36523, 20221, 24182, 28040, 38500, 23041, 32961]"

abbreviation s_seer_primary :: jsstring  \<comment> \<open>seer primary strategy\<close>
  where "s_seer_primary \<equiv> [36866, 26102, 20844, 24067, 26597, 39564, 32467, 26524, 65292, 24341, 23548, 25237, 31080]"

abbreviation s_seer_reasoning :: jsstring  \<comment> \<open>seer reasoning\<close>
  where "s_seer_reasoning \<equiv> [20316, 20026, 39044, 35328, 23478, 38656, 35201, 22312, 20445, 25252, 33258, 24049, 30340, 21516, 26102, 20256, 36798, 20449, 24687]"

abbreviation s_witch_primary :: jsstring  \<comment> \<open>witch primary strategy\<close>
  where "s_witch_primary \<equiv> [38544, 34255, 36523, 20221, 65292, 20851, 38190, 26102, 21051, 20351, 29992, 33647, 27700]"

abbreviation s_witch_reasoning :: jsstring  \<comment> \<open>witch reasoning\<close>
  where "s_witch_reasoning \<equiv> [20316, 20026, 22899, 24043, 38656, 35201, 22312, 21512, 36866, 26102, 26426, 20351, 29992, 33021, 21147]"

abbreviation s_villager_primary :: jsstring  \<comment> \<open>villager primary strategy\<close>
  where "s_villager_primary \<equiv> [20998, 26512, 21457, 35328, 65292, 23547, 25214, 36923, 36753, 28431, 27934]"

abbreviation s_villager_reasoning :: jsstring  \<comment> \<open>villager reasoning\<close>
  where "s_villager_reasoning \<equiv> [20316, 20026, 26449, 27665, 38656, 35201, 36890, 36807, 36923, 36753, 20998, 26512, 25214, 20986, 29436, 20154]"

section \<open>Shared game types\<close>

text \<open>
  Modelled from the spec: the package \<^verbatim>\<open>@ai-werewolf/types\<close> (PlayerId, Round, Speech,
  Vote, PlayerInfo, AllSpeeches, AllVotes, Role, GamePhase) is imported by the source but
  not part of it.  The records below carry the fields the source reads: a speech has a
  speaker id and a text, a vote a voter id and a target id, a roster entry an id and an
  alive flag; the per-round tables are read through \<^verbatim>\<open>Object.entries\<close> and
  \<^verbatim>\<open>Object.values\<close>, hence kept in that order.  Of \<^verbatim>\<open>GamePhase\<close> the source names
  only \<^verbatim>\<open>DAY\<close>; the other constructors stand for the remaining phases of a game.
\<close>

record Speech =
  sp_playerId :: PlayerId
  sp_content :: jsstring

record Vote =
  voterId :: PlayerId
  targetId :: PlayerId

record PlayerInfo =
  pi_id :: PlayerId
  isAlive :: bool

type_synonym AllSpeeches = "(Round, Speech list) jsmap"
type_synonym AllVotes = "(Round, Vote list) jsmap"

datatype Role = VILLAGER | WEREWOLF | SEER | WITCH

datatype GamePhase = PREPARING | NIGHT | DAY | VOTING | ENDED

section \<open>WerewolfCommunicationSystem: data\<close>

datatype MessageType = strategy | target_suggestion | information | coordination

datatype Level = low | medium | high

record WerewolfMessage =
  wm_id :: jsstring
  wm_senderId :: PlayerId
  wm_content :: jsstring
  wm_timestamp :: nat
  wm_round :: Round
  wm_type :: MessageType

record WerewolfTeamDecision =
  targetPlayerId :: PlayerId
  reason :: jsstring
  consensus :: bool
  participatingMembers :: "PlayerId list"
  finalDecisionMaker :: "PlayerId option"

record WerewolfCommunicationContext =
  ctx_round :: Round
  alivePlayers :: "PlayerInfo list"
  werewolfTeam :: "PlayerId list"
  aliveWerewolves :: "PlayerId list"
  targetCandidates :: "PlayerId list"
  gameAnalysis :: jsstring
  urgencyLevel :: Level

text \<open>One element of the \<^verbatim>\<open>memberSuggestions\<close> array of \<^verbatim>\<open>negotiateKillTarget\<close>.\<close>

record Suggestion =
  memberId :: PlayerId
  sg_suggestedTarget :: PlayerId
  sg_reason :: jsstring
  sg_priority :: rat

text \<open>The per-target value of the map built by \<^verbatim>\<open>analyzeTargetSuggestions\<close>.\<close>

record TargetData =
  votes :: nat
  totalPriority :: rat
  reasons :: "jsstring list"
  riskLevel :: rat

text \<open>The result of \<^verbatim>\<open>analyzeGameSituation\<close>.\<close>

record GameAnalysis =
  threatLevel :: Level
  suspiciousPlayers :: "PlayerId list"
  godRoleCandidates :: "PlayerId list"
  safePlayers :: "PlayerId list"
  urgentActions :: "jsstring list"

text \<open>The result of \<^verbatim>\<open>generateWerewolfCommunication\<close>.\<close>

record Communication =
  messageType :: MessageType
  content :: jsstring
  priority :: Level
  suggestedTarget :: "PlayerId option"
  reasoning :: jsstring

record WerewolfCommunicationSystem =
  messages :: "WerewolfMessage list"
  teamDecisions :: "WerewolfTeamDecision list"
  communicationHistory :: "(Round, WerewolfMessage list) jsmap"

text \<open>
  What \<^verbatim>\<open>Date.now()\<close> and \<^verbatim>\<open>Math.random().toString(36).substr(2, 9)\<close> yield while one
  message or memory entry is built: the time read for the id, the random part of the id,
  the time read for the timestamp.
\<close>

record Clock =
  now_id :: nat
  random_part :: jsstring
  now_ts :: nat

definition WerewolfCommunicationSystem_new :: WerewolfCommunicationSystem where
  "WerewolfCommunicationSystem_new =
     \<lparr>messages = [], teamDecisions = [], communicationHistory = []\<rparr>"

section \<open>WerewolfCommunicationSystem: operations\<close>

definition addMessage ::
  "Clock \<Rightarrow> PlayerId \<Rightarrow> jsstring \<Rightarrow> Round \<Rightarrow> MessageType \<Rightarrow>
   WerewolfCommunicationSystem \<Rightarrow> WerewolfCommunicationSystem" where
  "addMessage clk sender text rnd ty s =
     (let message = \<lparr>wm_id = s_werewolf_msg @ natToString (now_id clk) @ s_underscore @
                               random_part clk,
                       wm_senderId = sender, wm_content = text, wm_timestamp = now_ts clk,
                       wm_round = rnd, wm_type = ty\<rparr>;
          h0 = communicationHistory s;
          h1 = (if \<not> Map_has h0 rnd then Map_set h0 rnd [] else h0);
          h2 = (case Map_get h1 rnd of
                  Some bucket \<Rightarrow> Map_set h1 rnd (bucket @ [message])
                | None \<Rightarrow> h1)
      in s\<lparr>messages := messages s @ [message], communicationHistory := h2\<rparr>)"

text \<open>The body of the loop over the speeches of one round in \<^verbatim>\<open>analyzeGameSituation\<close>.\<close>

definition addCandidate :: "PlayerId \<Rightarrow> GameAnalysis \<Rightarrow> GameAnalysis" where
  "addCandidate p a =
     (if p \<notin> set (godRoleCandidates a)
      then a\<lparr>godRoleCandidates := godRoleCandidates a @ [p]\<rparr> else a)"

definition suspicionStep ::
  "Speech \<Rightarrow> jsstring \<Rightarrow> GameAnalysis \<Rightarrow> PlayerId \<Rightarrow> GameAnalysis" where
  "suspicionStep speech text a werewolfId =
     (if js_includes text (natToString werewolfId)
      then a\<lparr>threatLevel := high,
             urgentActions := urgentActions a @
               [natToString (sp_playerId speech) @ s_hao_suspects @
                natToString werewolfId @ s_hao_is_werewolf]\<rparr>
      else a)"

text \<open>The two keyword tests of the speech loop: signs of a seer, signs of a witch.\<close>

definition seerSign :: "jsstring \<Rightarrow> bool" where
  "seerSign text =
     (js_includes text s_seer \<or> js_includes text s_inspect \<or>
      js_includes text s_checked_last_night)"

definition witchSign :: "jsstring \<Rightarrow> bool" where
  "witchSign text =
     (js_includes text s_witch \<or> js_includes text s_potion \<or>
      js_includes text s_save \<or> js_includes text s_poison)"

definition speechStep ::
  "WerewolfCommunicationContext \<Rightarrow> GameAnalysis \<Rightarrow> Speech \<Rightarrow> GameAnalysis" where
  "speechStep ctx a speech =
     (if sp_playerId speech \<in> set (werewolfTeam ctx) then a
      else
        let text = toLowerCase (sp_content speech);
            a1 = (if seerSign text then addCandidate (sp_playerId speech) a else a);
            a2 = (if witchSign text then addCandidate (sp_playerId speech) a1 else a1)
        in if js_includes text s_werewolf \<and> (js_includes text s_think \<or> js_includes text s_suspect)
           then foldl (suspicionStep speech text) a2 (werewolfTeam ctx)
           else a2)"

definition voteStep ::
  "WerewolfCommunicationContext \<Rightarrow> GameAnalysis \<Rightarrow> Vote \<Rightarrow> GameAnalysis" where
  "voteStep ctx a vote =
     (if targetId vote \<in> set (werewolfTeam ctx) \<and> voterId vote \<notin> set (suspiciousPlayers a)
      then a\<lparr>suspiciousPlayers := suspiciousPlayers a @ [voterId vote]\<rparr> else a)"

definition safeStep ::
  "WerewolfCommunicationContext \<Rightarrow> GameAnalysis \<Rightarrow> PlayerInfo \<Rightarrow> GameAnalysis" where
  "safeStep ctx a player =
     (if pi_id player \<in> set (werewolfTeam ctx) then a
      else if pi_id player \<notin> set (godRoleCandidates a) \<and>
              pi_id player \<notin> set (suspiciousPlayers a)
           then a\<lparr>safePlayers := safePlayers a @ [pi_id player]\<rparr> else a)"

definition analyzeGameSituation ::
  "WerewolfCommunicationContext \<Rightarrow> AllSpeeches \<Rightarrow> AllVotes \<Rightarrow> GameAnalysis" where
  "analyzeGameSituation ctx allSpeeches allVotes =
     (let a0 = \<lparr>threatLevel = medium, suspiciousPlayers = [], godRoleCandidates = [],
                 safePlayers = [], urgentActions = []\<rparr>;
          a1 = foldl (\<lambda>a e. foldl (speechStep ctx) a (snd e)) a0 allSpeeches;
          a2 = foldl (\<lambda>a e. foldl (voteStep ctx) a (snd e)) a1 allVotes
      in foldl (safeStep ctx) a2 (alivePlayers ctx))"

definition generateCommunicationContent :: "GameAnalysis \<Rightarrow> Communication" where
  "generateCommunicationContent ga =
     (case godRoleCandidates ga of
        target # _ \<Rightarrow>
          \<lparr>messageType = target_suggestion,
           content = s_suggest_kill_first @ natToString target @ s_hao_likely_god,
           priority = high, suggestedTarget = Some target,
           reasoning = s_remove_god_threat\<rparr>
      | [] \<Rightarrow>
          if threatLevel ga = high
          then \<lparr>messageType = coordination, content = s_we_are_suspected,
                priority = high, suggestedTarget = None,
                reasoning = s_handle_high_threat\<rparr>
          else (case safePlayers ga of
                  target # _ \<Rightarrow>
                    \<lparr>messageType = target_suggestion,
                     content = natToString target @ s_hao_relatively_safe,
                     priority = medium, suggestedTarget = Some target,
                     reasoning = s_choose_low_risk\<rparr>
                | [] \<Rightarrow>
                    \<lparr>messageType = strategy, content = s_analyse_carefully,
                     priority = low, suggestedTarget = None,
                     reasoning = s_routine_discussion\<rparr>))"

definition generateWerewolfCommunication ::
  "Clock \<Rightarrow> PlayerId \<Rightarrow> WerewolfCommunicationContext \<Rightarrow> AllSpeeches \<Rightarrow> AllVotes \<Rightarrow>
   WerewolfCommunicationSystem \<Rightarrow> Communication \<times> WerewolfCommunicationSystem" where
  "generateWerewolfCommunication clk sender ctx allSpeeches allVotes s =
     (let ga = analyzeGameSituation ctx allSpeeches allVotes;
          communication = generateCommunicationContent ga
      in (communication,
          addMessage clk sender (content communication) (ctx_round ctx)
            (messageType communication) s))"

text \<open>
  \<^verbatim>\<open>analyzeTargetSuggestions\<close>: the first loop groups the suggestions by target, in the
  order in which targets first occur; the second loop sets the risk level of each group.
\<close>

definition tallyStep :: "(PlayerId, TargetData) jsmap \<Rightarrow> Suggestion \<Rightarrow> (PlayerId, TargetData) jsmap" where
  "tallyStep analysis suggestion =
     (let target = sg_suggestedTarget suggestion;
          analysis1 = (if \<not> Map_has analysis target
                       then Map_set analysis target
                              \<lparr>votes = 0, totalPriority = 0, reasons = [], riskLevel = 0\<rparr>
                       else analysis)
      in case Map_get analysis1 target of
           Some d \<Rightarrow> Map_set analysis1 target
                       (d\<lparr>votes := votes d + 1,
                          totalPriority := totalPriority d + sg_priority suggestion,
                          reasons := reasons d @ [sg_reason suggestion]\<rparr>)
         | None \<Rightarrow> analysis1)"

definition assessRisk :: "TargetData \<Rightarrow> rat" where
  "assessRisk d =
     (if list_ex (\<lambda>r. js_includes r s_god \<or> js_includes r s_seer \<or> js_includes r s_witch) (reasons d)
      then 0.3
      else if list_ex (\<lambda>r. js_includes r s_suspect \<or> js_includes r s_threat) (reasons d)
      then 0.8
      else 0.5)"

definition analyzeTargetSuggestions :: "Suggestion list \<Rightarrow> (PlayerId, TargetData) jsmap" where
  "analyzeTargetSuggestions suggestions =
     map (\<lambda>e. (fst e, (snd e)\<lparr>riskLevel := assessRisk (snd e)\<rparr>))
       (foldl tallyStep [] suggestions)"

definition targetScore :: "TargetData \<Rightarrow> rat" where
  "targetScore d = of_nat (votes d) * 0.4 + totalPriority d * 0.4 + (1 - riskLevel d) * 0.2"

definition bestStep ::
  "PlayerId option \<times> rat \<Rightarrow> PlayerId \<times> TargetData \<Rightarrow> PlayerId option \<times> rat" where
  "bestStep best e =
     (if targetScore (snd e) > snd best then (Some (fst e), targetScore (snd e)) else best)"

text \<open>
  \<^verbatim>\<open>makeTeamDecision\<close>.  The last operand of the \<^verbatim>\<open>||\<close> chain reads \<^verbatim>\<open>.id\<close> of
  \<^verbatim>\<open>context.alivePlayers[0]\<close>, which raises a TypeError when the roster is empty.
\<close>

definition makeTeamDecision ::
  "(PlayerId, TargetData) jsmap \<Rightarrow> WerewolfCommunicationContext \<Rightarrow>
   js_error + WerewolfTeamDecision" where
  "makeTeamDecision targetAnalysis ctx =
     (let best0 = fst (foldl bestStep (None, - 1) targetAnalysis);
          bestTarget = (case targetCandidates ctx of
                          c # _ \<Rightarrow> if \<not> truthy best0 then Some c else best0
                        | [] \<Rightarrow> best0);
          targetData = (case bestTarget of
                          Some t \<Rightarrow> if truthy bestTarget then Map_get targetAnalysis t else None
                        | None \<Rightarrow> None);
          consensus' = (case targetData of
                          Some d \<Rightarrow> (of_nat (votes d) :: rat) >
                                      of_nat (length (aliveWerewolves ctx)) / 2
                        | None \<Rightarrow> False);
          fromRoster = (case alivePlayers ctx of
                          p # _ \<Rightarrow> Inr (pi_id p)
                        | [] \<Rightarrow> Inl TypeError);
          fromCandidates = (case targetCandidates ctx of
                              c # _ \<Rightarrow> if c \<noteq> 0 then Inr c else fromRoster
                            | [] \<Rightarrow> fromRoster);
          chosen = (case bestTarget of
                      Some t \<Rightarrow> if truthy bestTarget then Inr t else fromCandidates
                    | None \<Rightarrow> fromCandidates)
      in case chosen of
           Inl err \<Rightarrow> Inl err
         | Inr t \<Rightarrow>
             Inr \<lparr>targetPlayerId = t,
                  reason = (case targetData of
                              Some d \<Rightarrow> join s_semicolon_sp (reasons d)
                            | None \<Rightarrow> s_default_choice),
                  consensus = consensus',
                  participatingMembers = aliveWerewolves ctx,
                  finalDecisionMaker = (case aliveWerewolves ctx of
                                          w # _ \<Rightarrow> Some w | [] \<Rightarrow> None)\<rparr>)"

definition negotiateKillTarget ::
  "WerewolfCommunicationContext \<Rightarrow> Suggestion list \<Rightarrow> WerewolfCommunicationSystem \<Rightarrow>
   js_error + (WerewolfTeamDecision \<times> WerewolfCommunicationSystem)" where
  "negotiateKillTarget ctx memberSuggestions s =
     (let targetAnalysis = analyzeTargetSuggestions memberSuggestions
      in case makeTeamDecision targetAnalysis ctx of
           Inl err \<Rightarrow> Inl err
         | Inr decision \<Rightarrow>
             Inr (decision, s\<lparr>teamDecisions := teamDecisions s @ [decision]\<rparr>))"

text \<open>
  \<^verbatim>\<open>cleanup\<close>.  The loop over \<^verbatim>\<open>communicationHistory\<close> visits each round present when
  it starts and deletes the bucket of a round that is more than three rounds old.
\<close>

definition cleanupStep ::
  "Round \<Rightarrow> (Round, WerewolfMessage list) jsmap \<Rightarrow> Round \<Rightarrow> (Round, WerewolfMessage list) jsmap" where
  "cleanupStep currentRound h rnd =
     (if int currentRound - int rnd > 3 then Map_delete h rnd else h)"

definition cleanup :: "Round \<Rightarrow> WerewolfCommunicationSystem \<Rightarrow> WerewolfCommunicationSystem" where
  "cleanup currentRound s =
     s\<lparr>messages := filter (\<lambda>msg. int currentRound - int (wm_round msg) \<le> 3) (messages s),
       communicationHistory :=
         foldl (cleanupStep currentRound) (communicationHistory s)
           (map fst (communicationHistory s))\<rparr>"


section \<open>AIMemorySystem: data\<close>

datatype MemoryType = speech_analysis | vote_pattern | role_deduction | strategy_mem | contradiction

datatype MemorySource = observation | deduction | interaction

record AIMemoryEntry =
  me_id :: jsstring
  me_timestamp :: nat
  me_round :: Round
  me_type :: MemoryType
  me_playerId :: "PlayerId option"
  me_content :: jsstring
  me_confidence :: rat
  me_relevance :: rat
  me_source :: MemorySource

record PlayerProfile =
  pp_playerId :: PlayerId
  suspectedRole :: "Role option"
  pp_confidence :: rat
  behaviors :: "jsstring list"
  contradictions :: "jsstring list"
  alliances :: "PlayerId list"
  threats :: "PlayerId list"
  lastUpdated :: Round

record GameContext =
  myRole :: Role
  myPlayerId :: PlayerId
  teammates :: "PlayerId list"
  currentRound :: Round
  currentPhase :: GamePhase

text \<open>
  The state of one \<^verbatim>\<open>AIMemorySystem\<close>.  Its field \<^verbatim>\<open>strategyMemories\<close> is never read
  or written by any method and is left out.
\<close>

record AIMemorySystem =
  memories :: "AIMemoryEntry list"
  playerProfiles :: "(PlayerId, PlayerProfile) jsmap"
  gameContext :: GameContext

text \<open>The result of \<^verbatim>\<open>extractSpeechInsights\<close>.\<close>

record SpeechInsights =
  summary :: jsstring
  si_confidence :: rat
  si_keywords :: "jsstring list"

text \<open>One element of the result of \<^verbatim>\<open>extractVotingPatterns\<close>.\<close>

record VotingPattern =
  vp_playerId :: PlayerId
  description :: jsstring
  vp_confidence :: rat

text \<open>The result of \<^verbatim>\<open>analyzePlayerRole\<close>, and a value of the map \<^verbatim>\<open>deduceRoles\<close> returns.\<close>

record RoleDeduction =
  rd_role :: Role
  rd_confidence :: rat

text \<open>The argument and the result of \<^verbatim>\<open>generateStrategy\<close>.\<close>

record StrategyContext =
  sc_currentPhase :: GamePhase
  sc_alivePlayers :: "PlayerInfo list"
  sc_allSpeeches :: AllSpeeches
  sc_allVotes :: AllVotes

record Strategy =
  primaryStrategy :: jsstring
  st_reasoning :: jsstring
  targetPlayers :: "PlayerId list"
  st_riskLevel :: Level

text \<open>One element of the result of \<^verbatim>\<open>getThreatAssessment\<close>.\<close>

record Threat =
  th_playerId :: PlayerId
  th_threatLevel :: rat
  th_reason :: jsstring

text \<open>
  Modelled from the spec: the string values of the \<^verbatim>\<open>Role\<close> enum, declared in
  \<^verbatim>\<open>@ai-werewolf/types\<close>, are taken to be the lower-case role names.  They occur only in
  the text of a role-deduction memory.
\<close>

fun roleToString :: "Role \<Rightarrow> jsstring" where
  "roleToString VILLAGER = [118, 105, 108, 108, 97, 103, 101, 114]"
| "roleToString WEREWOLF = [119, 101, 114, 101, 119, 111, 108, 102]"
| "roleToString SEER = [115, 101, 101, 114]"
| "roleToString WITCH = [119, 105, 116, 99, 104]"

section \<open>AIMemorySystem: operations\<close>

text \<open>The constructor; an absent \<^verbatim>\<open>teammates\<close> argument becomes the empty list.\<close>

definition AIMemorySystem_new :: "Role \<Rightarrow> PlayerId \<Rightarrow> PlayerId list option \<Rightarrow> AIMemorySystem" where
  "AIMemorySystem_new role me mates =
     \<lparr>memories = [], playerProfiles = [],
      gameContext = \<lparr>myRole = role, myPlayerId = me,
                     teammates = (case mates of Some ts \<Rightarrow> ts | None \<Rightarrow> []),
                     currentRound = 1, currentPhase = DAY\<rparr>\<rparr>"

definition updateGameContext :: "Round \<Rightarrow> GamePhase \<Rightarrow> AIMemorySystem \<Rightarrow> AIMemorySystem" where
  "updateGameContext rnd phase s =
     s\<lparr>gameContext := (gameContext s)\<lparr>currentRound := rnd, currentPhase := phase\<rparr>\<rparr>"

definition memoryScore :: "AIMemoryEntry \<Rightarrow> rat" where
  "memoryScore m = me_relevance m * me_confidence m"

text \<open>The comparator \<^verbatim>\<open>(a, b) => (b.relevance * b.confidence) - (a.relevance * a.confidence)\<close>.\<close>

definition byScoreDesc :: "AIMemoryEntry \<Rightarrow> AIMemoryEntry \<Rightarrow> rat" where
  "byScoreDesc a b = memoryScore b - memoryScore a"

text \<open>The entry \<^verbatim>\<open>addMemory\<close> builds from its parameters, the clock and the current round.\<close>

definition newMemory ::
  "Clock \<Rightarrow> MemoryType \<Rightarrow> PlayerId option \<Rightarrow> jsstring \<Rightarrow> rat \<Rightarrow> rat \<Rightarrow> MemorySource \<Rightarrow>
   AIMemorySystem \<Rightarrow> AIMemoryEntry" where
  "newMemory clk ty pid text conf rel src s =
     \<lparr>me_id = s_memory @ natToString (now_id clk) @ s_underscore @ random_part clk,
      me_timestamp = now_ts clk,
      me_round = currentRound (gameContext s),
      me_type = ty, me_playerId = pid, me_content = text,
      me_confidence = conf, me_relevance = rel, me_source = src\<rparr>"

definition addMemory ::
  "Clock \<Rightarrow> MemoryType \<Rightarrow> PlayerId option \<Rightarrow> jsstring \<Rightarrow> rat \<Rightarrow> rat \<Rightarrow> MemorySource \<Rightarrow>
   AIMemorySystem \<Rightarrow> AIMemorySystem" where
  "addMemory clk ty pid text conf rel src s =
     (let pushed = memories s @ [newMemory clk ty pid text conf rel src s]
      in s\<lparr>memories := (if length pushed > 100
                         then slice0 80 (js_sort byScoreDesc pushed) else pushed)\<rparr>)"

text \<open>One keyword bucket of \<^verbatim>\<open>extractSpeechInsights\<close>: a hit adds the tag and 0.1.\<close>

definition bucket :: "bool \<Rightarrow> jsstring \<Rightarrow> jsstring list \<times> rat \<Rightarrow> jsstring list \<times> rat" where
  "bucket hit tag kc = (if hit then (fst kc @ [tag], snd kc + 0.1) else kc)"

definition extractSpeechInsights :: "Speech \<Rightarrow> AllSpeeches \<Rightarrow> SpeechInsights" where
  "extractSpeechInsights speech allSpeeches =
     (let text = toLowerCase (sp_content speech);
          kc0 = ([], 0.5);
          kc1 = bucket (js_includes text s_werewolf \<or> js_includes text s_kill)
                  s_werewolf_related kc0;
          kc2 = bucket (js_includes text s_seer \<or> js_includes text s_inspect)
                  s_seer_related kc1;
          kc3 = bucket (js_includes text s_witch \<or> js_includes text s_medicine)
                  s_witch_related kc2;
          kc4 = bucket (js_includes text s_vote \<or> js_includes text s_eliminated)
                  s_vote_related kc3;
          kc5 = bucket (js_includes text s_last_night \<or> js_includes text s_at_night)
                  s_night_info kc4;
          kws = fst kc5
      in \<lparr>summary = natToString (sp_playerId speech) @ s_hao_colon @
                     (if length kws > 0 then join s_comma_sp kws else s_general_speech),
          si_confidence = min (snd kc5) 1.0,
          si_keywords = kws\<rparr>)"

definition calculateRelevance :: "AIMemorySystem \<Rightarrow> PlayerId \<Rightarrow> jsstring list \<Rightarrow> rat" where
  "calculateRelevance s pid kws =
     (let r0 = 0.5;
          r1 = (if pid \<in> set (teammates (gameContext s)) then r0 * 0.7 else r0);
          r2 = (if list_ex (\<lambda>k. js_includes k s_werewolf \<or> js_includes k s_seer \<or>
                                 js_includes k s_witch) kws
                then r1 + 0.3 else r1)
      in min r2 1.0)"

definition updatePlayerProfile ::
  "PlayerId \<Rightarrow> SpeechInsights \<Rightarrow> PlayerInfo list \<Rightarrow> AIMemorySystem \<Rightarrow> AIMemorySystem" where
  "updatePlayerProfile pid analysis alive s =
     (let rnd = currentRound (gameContext s);
          profile0 = (case Map_get (playerProfiles s) pid of
                        Some p \<Rightarrow> p
                      | None \<Rightarrow> \<lparr>pp_playerId = pid, suspectedRole = None, pp_confidence = 0,
                                  behaviors = [], contradictions = [], alliances = [],
                                  threats = [], lastUpdated = rnd\<rparr>);
          profile1 = (if length (si_keywords analysis) > 0
                      then profile0\<lparr>behaviors := behaviors profile0 @
                             [s_di @ natToString rnd @ s_lun_colon @
                              join s_comma_sp (si_keywords analysis)]\<rparr>
                      else profile0);
          profile2 = profile1\<lparr>lastUpdated := rnd\<rparr>
      in s\<lparr>playerProfiles := Map_set (playerProfiles s) pid profile2\<rparr>)"

text \<open>All speeches of one player, round after round (\<^verbatim>\<open>Object.values(allSpeeches)\<close>).\<close>

definition speechesOf :: "PlayerId \<Rightarrow> AllSpeeches \<Rightarrow> Speech list" where
  "speechesOf pid allSpeeches =
     concat (map (\<lambda>e. filter (\<lambda>sp. sp_playerId sp = pid) (snd e)) allSpeeches)"

definition contradictionStep :: "Speech \<Rightarrow> jsstring list \<Rightarrow> Speech \<Rightarrow> jsstring list" where
  "contradictionStep speech found pastSpeech =
     (if sp_content pastSpeech = sp_content speech then found
      else
        let currentContent = toLowerCase (sp_content speech);
            pastContent = toLowerCase (sp_content pastSpeech);
            f1 = (if js_includes currentContent s_i_am_seer \<and>
                     js_includes pastContent s_i_am_not_seer
                  then found @ [s_role_claim_contradiction] else found);
            f2 = (if js_includes currentContent s_i_am_witch \<and>
                     js_includes pastContent s_i_am_not_witch
                  then f1 @ [s_role_claim_contradiction] else f1)
        in if js_includes currentContent s_inspect \<and> js_includes pastContent s_inspect
           then f2 @ [s_inspect_contradiction] else f2)"

definition detectContradictions :: "PlayerId \<Rightarrow> Speech \<Rightarrow> AllSpeeches \<Rightarrow> jsstring list" where
  "detectContradictions pid speech allSpeeches =
     foldl (contradictionStep speech) [] (speechesOf pid allSpeeches)"

text \<open>
  \<^verbatim>\<open>analyzeSpeech\<close>; \<open>clocks 0\<close> and \<open>clocks 1\<close> serve its two calls of \<^verbatim>\<open>addMemory\<close>.
\<close>

definition analyzeSpeech ::
  "(nat \<Rightarrow> Clock) \<Rightarrow> Speech \<Rightarrow> AllSpeeches \<Rightarrow> PlayerInfo list \<Rightarrow> AIMemorySystem \<Rightarrow>
   AIMemorySystem" where
  "analyzeSpeech clocks speech allSpeeches alive s =
     (let pid = sp_playerId speech;
          analysis = extractSpeechInsights speech allSpeeches;
          s1 = addMemory (clocks 0) speech_analysis (Some pid) (summary analysis)
                 (si_confidence analysis) (calculateRelevance s pid (si_keywords analysis))
                 observation s;
          s2 = updatePlayerProfile pid analysis alive s1;
          found = detectContradictions pid speech allSpeeches
      in if length found > 0
         then addMemory (clocks 1) contradiction (Some pid)
                (s_contradiction_found @ join s_semicolon_sp found) 0.8 0.9 deduction s2
         else s2)"

text \<open>\<^verbatim>\<open>xs.findIndex(p)\<close>: the first index whose element satisfies \<open>p\<close>, or \<open>-1\<close>.\<close>

fun findIndex :: "('a \<Rightarrow> bool) \<Rightarrow> 'a list \<Rightarrow> int" where
  "findIndex p [] = - 1"
| "findIndex p (x # xs) =
     (if p x then 0 else (let i = findIndex p xs in if i < 0 then - 1 else i + 1))"

definition followStep :: "AllVotes \<Rightarrow> nat \<Rightarrow> Vote \<Rightarrow> nat" where
  "followStep allVotes followCount vote =
     (case find (list_ex (\<lambda>v. voterId v = voterId vote \<and> targetId v = targetId vote))
             (map snd allVotes) of
        None \<Rightarrow> followCount
      | Some roundVotes \<Rightarrow>
          if (of_int (findIndex (\<lambda>v. voterId v = voterId vote) roundVotes) :: rat) >
             of_nat (length roundVotes) / 2
          then followCount + 1 else followCount)"

definition detectFollowerBehavior :: "Vote list \<Rightarrow> AllVotes \<Rightarrow> bool" where
  "detectFollowerBehavior playerVotes allVotes =
     ((of_nat (foldl (followStep allVotes) 0 playerVotes) :: rat) >
      of_nat (length playerVotes) * 0.6)"

text \<open>The grouping loop of \<^verbatim>\<open>extractVotingPatterns\<close>: votes by voter, voters in order of first vote.\<close>

definition groupStep :: "(PlayerId, Vote list) jsmap \<Rightarrow> Vote \<Rightarrow> (PlayerId, Vote list) jsmap" where
  "groupStep playerVotes vote =
     (let pv1 = (if \<not> Map_has playerVotes (voterId vote)
                 then Map_set playerVotes (voterId vote) [] else playerVotes)
      in case Map_get pv1 (voterId vote) of
           Some vs \<Rightarrow> Map_set pv1 (voterId vote) (vs @ [vote])
         | None \<Rightarrow> pv1)"

definition patternStep ::
  "AllVotes \<Rightarrow> VotingPattern list \<Rightarrow> PlayerId \<times> Vote list \<Rightarrow> VotingPattern list" where
  "patternStep allVotes patterns e =
     (if length (snd e) < 2 then patterns
      else
        let p1 = (if detectFollowerBehavior (snd e) allVotes
                  then patterns @ [\<lparr>vp_playerId = fst e, description = s_follower,
                                     vp_confidence = 0.6\<rparr>]
                  else patterns)
        in if length (remdups (map targetId (snd e))) = length (snd e)
           then p1 @ [\<lparr>vp_playerId = fst e, description = s_scatter, vp_confidence = 0.5\<rparr>]
           else p1)"

definition extractVotingPatterns :: "Vote list \<Rightarrow> AllVotes \<Rightarrow> VotingPattern list" where
  "extractVotingPatterns votes' allVotes =
     foldl (patternStep allVotes) []
       (foldl (\<lambda>pv e. foldl groupStep pv (snd e)) [] allVotes)"

text \<open>\<^verbatim>\<open>analyzeVotingPattern\<close>; \<open>clocks k\<close> serves the \<open>k\<close>-th call of \<^verbatim>\<open>addMemory\<close>.\<close>

definition patternMemory ::
  "(nat \<Rightarrow> Clock) \<Rightarrow> nat \<times> AIMemorySystem \<Rightarrow> VotingPattern \<Rightarrow> nat \<times> AIMemorySystem" where
  "patternMemory clocks ks pattern =
     (fst ks + 1,
      addMemory (clocks (fst ks)) vote_pattern (Some (vp_playerId pattern))
        (description pattern) (vp_confidence pattern) 0.8 observation (snd ks))"

definition analyzeVotingPattern ::
  "(nat \<Rightarrow> Clock) \<Rightarrow> Vote list \<Rightarrow> AllVotes \<Rightarrow> PlayerInfo list \<Rightarrow> AIMemorySystem \<Rightarrow>
   AIMemorySystem" where
  "analyzeVotingPattern clocks votes' allVotes alive s =
     snd (foldl (patternMemory clocks) (0, s) (extractVotingPatterns votes' allVotes))"

text \<open>The loop over one player's speeches in \<^verbatim>\<open>analyzePlayerRole\<close>; the scores are
  kept in the order werewolf, seer, witch, villager.\<close>

definition roleScoreStep :: "rat \<times> rat \<times> rat \<times> rat \<Rightarrow> Speech \<Rightarrow> rat \<times> rat \<times> rat \<times> rat" where
  "roleScoreStep sc speech =
     (case sc of (werewolfScore, seerScore, witchScore, villagerScore) \<Rightarrow>
        let text = toLowerCase (sp_content speech)
        in ((if js_includes text s_unsure \<or> js_includes text s_maybe
             then werewolfScore + 0.1 else werewolfScore),
            (if js_includes text s_seer \<or> js_includes text s_inspect
             then seerScore + 0.2 else seerScore),
            (if js_includes text s_witch \<or> js_includes text s_medicine
             then witchScore + 0.2 else witchScore),
            (if js_includes text s_i_am_villager \<or> js_includes text s_good_person
             then villagerScore + 0.1 else villagerScore)))"

definition analyzePlayerRole ::
  "AIMemorySystem \<Rightarrow> PlayerId \<Rightarrow> AllSpeeches \<Rightarrow> AllVotes \<Rightarrow> RoleDeduction" where
  "analyzePlayerRole s pid allSpeeches allVotes =
     (case foldl roleScoreStep (0, 0, 0, 0) (speechesOf pid allSpeeches) of
        (werewolfScore0, seerScore, witchScore, villagerScore) \<Rightarrow>
          let werewolfScore =
                (case Map_get (playerProfiles s) pid of
                   Some profile \<Rightarrow> if length (contradictions profile) > 1
                                    then werewolfScore0 + 0.3 else werewolfScore0
                 | None \<Rightarrow> werewolfScore0);
              scores = [(WEREWOLF, werewolfScore), (SEER, seerScore),
                        (WITCH, witchScore), (VILLAGER, villagerScore)]
          in (case js_sort (\<lambda>a b. snd b - snd a) scores of
                bestGuess # _ \<Rightarrow>
                  \<lparr>rd_role = fst bestGuess, rd_confidence = min (snd bestGuess) 0.8\<rparr>
              | [] \<Rightarrow> \<lparr>rd_role = WEREWOLF, rd_confidence = 0\<rparr>))"

text \<open>
  \<^verbatim>\<open>deduceRoles\<close>: the loop state is the map of deductions, the number of memories added so
  far and the system.
\<close>

definition deduceStep ::
  "(nat \<Rightarrow> Clock) \<Rightarrow> AllSpeeches \<Rightarrow> AllVotes \<Rightarrow>
   (PlayerId, RoleDeduction) jsmap \<times> nat \<times> AIMemorySystem \<Rightarrow> PlayerInfo \<Rightarrow>
   (PlayerId, RoleDeduction) jsmap \<times> nat \<times> AIMemorySystem" where
  "deduceStep clocks allSpeeches allVotes st player =
     (case st of (roleDeductions, k, s) \<Rightarrow>
        if pi_id player = myPlayerId (gameContext s) then st
        else
          let ded = analyzePlayerRole s (pi_id player) allSpeeches allVotes
          in if rd_confidence ded > 0.3
             then (Map_set roleDeductions (pi_id player) ded, k + 1,
                   addMemory (clocks k) role_deduction (Some (pi_id player))
                     (s_deduced_role @ roleToString (rd_role ded) @ s_open_confidence @
                      numberToString (rd_confidence ded) @ s_close_paren)
                     (rd_confidence ded) 0.9 deduction s)
             else st)"

definition deduceRoles ::
  "(nat \<Rightarrow> Clock) \<Rightarrow> PlayerInfo list \<Rightarrow> AllSpeeches \<Rightarrow> AllVotes \<Rightarrow> AIMemorySystem \<Rightarrow>
   (PlayerId, RoleDeduction) jsmap \<times> AIMemorySystem" where
  "deduceRoles clocks alive allSpeeches allVotes s =
     (case foldl (deduceStep clocks allSpeeches allVotes) ([], 0, s) alive of
        (roleDeductions, k, s') \<Rightarrow> (roleDeductions, s'))"

definition getRelevantMemories :: "AIMemorySystem \<Rightarrow> GamePhase \<Rightarrow> AIMemoryEntry list" where
  "getRelevantMemories s phase =
     js_sort byScoreDesc
       (filter (\<lambda>m. \<not> (int (currentRound (gameContext s)) - int (me_round m) > 3) \<and>
                    me_relevance m > 0.5 \<and> me_confidence m > 0.4) (memories s))"

definition getPlayerAnalysis :: "AIMemorySystem \<Rightarrow> (PlayerId, PlayerProfile) jsmap" where
  "getPlayerAnalysis s = playerProfiles s"

definition generateWerewolfStrategy ::
  "StrategyContext \<Rightarrow> AIMemoryEntry list \<Rightarrow> (PlayerId, PlayerProfile) jsmap \<Rightarrow> Strategy" where
  "generateWerewolfStrategy ctx mems players =
     \<lparr>primaryStrategy = s_wolf_primary, st_reasoning = s_wolf_reasoning,
      targetPlayers =
        slice0 2 (filter (\<lambda>i. (case Map_get players i of
                                   Some p \<Rightarrow> suspectedRole p = Some SEER \<or>
                                             suspectedRole p = Some WITCH
                                 | None \<Rightarrow> False)) (map fst players)),
      st_riskLevel = medium\<rparr>"

definition generateSeerStrategy ::
  "StrategyContext \<Rightarrow> AIMemoryEntry list \<Rightarrow> (PlayerId, PlayerProfile) jsmap \<Rightarrow> Strategy" where
  "generateSeerStrategy ctx mems players =
     \<lparr>primaryStrategy = s_seer_primary, st_reasoning = s_seer_reasoning,
      targetPlayers =
        slice0 2 (filter (\<lambda>i. (case Map_get players i of
                                   Some p \<Rightarrow> suspectedRole p = Some WEREWOLF
                                 | None \<Rightarrow> False)) (map fst players)),
      st_riskLevel = high\<rparr>"

definition generateWitchStrategy ::
  "StrategyContext \<Rightarrow> AIMemoryEntry list \<Rightarrow> (PlayerId, PlayerProfile) jsmap \<Rightarrow> Strategy" where
  "generateWitchStrategy ctx mems players =
     \<lparr>primaryStrategy = s_witch_primary, st_reasoning = s_witch_reasoning,
      targetPlayers = [], st_riskLevel = low\<rparr>"

definition generateVillagerStrategy ::
  "StrategyContext \<Rightarrow> AIMemoryEntry list \<Rightarrow> (PlayerId, PlayerProfile) jsmap \<Rightarrow> Strategy" where
  "generateVillagerStrategy ctx mems players =
     \<lparr>primaryStrategy = s_villager_primary, st_reasoning = s_villager_reasoning,
      targetPlayers =
        slice0 2 (filter (\<lambda>i. (case Map_get players i of
                                   Some p \<Rightarrow> length (contradictions p) > 1
                                 | None \<Rightarrow> False)) (map fst players)),
      st_riskLevel = low\<rparr>"

definition generateStrategy ::
  "Clock \<Rightarrow> StrategyContext \<Rightarrow> AIMemorySystem \<Rightarrow> Strategy \<times> AIMemorySystem" where
  "generateStrategy clk ctx s =
     (let relevantMemories = getRelevantMemories s (sc_currentPhase ctx);
          playerAnalysis = getPlayerAnalysis s;
          strat = (if myRole (gameContext s) = WEREWOLF
                   then generateWerewolfStrategy ctx relevantMemories playerAnalysis
                   else if myRole (gameContext s) = SEER
                   then generateSeerStrategy ctx relevantMemories playerAnalysis
                   else if myRole (gameContext s) = WITCH
                   then generateWitchStrategy ctx relevantMemories playerAnalysis
                   else generateVillagerStrategy ctx relevantMemories playerAnalysis)
      in (strat,
          addMemory clk strategy_mem None
            (s_strategy_colon @ primaryStrategy strat @ s_bar_reason @ st_reasoning strat)
            0.7 1.0 deduction s))"

definition memoryLine :: "AIMemoryEntry \<Rightarrow> jsstring" where
  "memoryLine m =
     s_di @ natToString (me_round m) @ s_lun_colon @ me_content m @ s_open_confidence @
     intToString (Math_round (me_confidence m * 100)) @ s_percent_close"

text \<open>\<^verbatim>\<open>getMemorySummary\<close>; an absent argument is the default 10.\<close>

definition getMemorySummary :: "int option \<Rightarrow> AIMemorySystem \<Rightarrow> jsstring" where
  "getMemorySummary maxEntries s =
     (let importantMemories =
            slice0 (case maxEntries of Some n \<Rightarrow> n | None \<Rightarrow> 10)
              (js_sort byScoreDesc
                 (filter (\<lambda>m. me_relevance m > 0.6 \<and> me_confidence m > 0.5) (memories s)))
      in if length importantMemories = 0 then s_no_memory
         else s_important_memory @ join s_newline (map memoryLine importantMemories))"

text \<open>
  The body of the loop of \<^verbatim>\<open>getThreatAssessment\<close> for one profile: first the threat level
  and the reasons its three tests add up, then the entry pushed when the level exceeds 0.3.
\<close>

definition threatSignals :: "AIMemorySystem \<Rightarrow> PlayerId \<times> PlayerProfile \<Rightarrow> rat \<times> jsstring list" where
  "threatSignals s e =
     (let t1 = (if suspectedRole (snd e) = Some WEREWOLF \<and> myRole (gameContext s) \<noteq> WEREWOLF
                then (0.8, [s_likely_werewolf]) else (0, []));
          t2 = (if length (contradictions (snd e)) > 2
                then (fst t1 + 0.3, snd t1 @ [s_speech_contradictory]) else t1);
          votingMemories = filter (\<lambda>m. me_type m = vote_pattern \<and>
                                        me_playerId m = Some (fst e)) (memories s)
      in if list_ex (\<lambda>m. js_includes (me_content m) s_suspicious) votingMemories
         then (fst t2 + 0.2, snd t2 @ [s_vote_suspicious]) else t2)"

definition threatStep :: "AIMemorySystem \<Rightarrow> Threat list \<Rightarrow> PlayerId \<times> PlayerProfile \<Rightarrow> Threat list" where
  "threatStep s found e =
     (if fst e = myPlayerId (gameContext s) then found
      else
        let t = threatSignals s e
        in if fst t > 0.3
           then found @ [\<lparr>th_playerId = fst e, th_threatLevel = min (fst t) 1.0,
                           th_reason = join s_comma_sp (snd t)\<rparr>]
           else found)"

definition getThreatAssessment :: "AIMemorySystem \<Rightarrow> Threat list" where
  "getThreatAssessment s =
     js_sort (\<lambda>a b. th_threatLevel b - th_threatLevel a)
       (foldl (threatStep s) [] (playerProfiles s))"


section \<open>Call sequences on an AIMemorySystem\<close>

text \<open>
  One call of a public method, with its arguments and the clock readings it consumes.  The
  two queries return a value and leave the system as it is.
\<close>

datatype MemoryCall =
    UpdateGameContext Round GamePhase
  | AnalyzeSpeech "nat \<Rightarrow> Clock" Speech AllSpeeches "PlayerInfo list"
  | AnalyzeVotingPattern "nat \<Rightarrow> Clock" "Vote list" AllVotes "PlayerInfo list"
  | DeduceRoles "nat \<Rightarrow> Clock" "PlayerInfo list" AllSpeeches AllVotes
  | GenerateStrategy Clock StrategyContext
  | GetMemorySummary "int option"
  | GetThreatAssessment

fun call :: "AIMemorySystem \<Rightarrow> MemoryCall \<Rightarrow> AIMemorySystem" where
  "call s (UpdateGameContext rnd phase) = updateGameContext rnd phase s"
| "call s (AnalyzeSpeech clocks speech allSpeeches alive) =
     analyzeSpeech clocks speech allSpeeches alive s"
| "call s (AnalyzeVotingPattern clocks vs allVotes alive) =
     analyzeVotingPattern clocks vs allVotes alive s"
| "call s (DeduceRoles clocks alive allSpeeches allVotes) =
     snd (deduceRoles clocks alive allSpeeches allVotes s)"
| "call s (GenerateStrategy clk ctx) = snd (generateStrategy clk ctx s)"
| "call s (GetMemorySummary maxEntries) = s"
| "call s GetThreatAssessment = s"

definition run :: "MemoryCall list \<Rightarrow> AIMemorySystem \<Rightarrow> AIMemorySystem" where
  "run calls s = foldl call s calls"

section \<open>getMemorySummary on an array store\<close>

text \<open>
  \<^verbatim>\<open>Array.prototype.sort\<close> works in place, \<^verbatim>\<open>filter\<close> and \<^verbatim>\<open>slice\<close> allocate.  To
  see which array \<^verbatim>\<open>getMemorySummary\<close> sorts, its chain of array calls is replayed on a
  store of arrays: a reference is an index into the store, a fresh array is appended.
\<close>

type_synonym entryStore = "AIMemoryEntry list list"

definition arr_filter :: "(AIMemoryEntry \<Rightarrow> bool) \<Rightarrow> nat \<Rightarrow> entryStore \<Rightarrow> nat \<times> entryStore" where
  "arr_filter p a h = (length h, h @ [filter p (h ! a)])"

definition arr_sort ::
  "(AIMemoryEntry \<Rightarrow> AIMemoryEntry \<Rightarrow> rat) \<Rightarrow> nat \<Rightarrow> entryStore \<Rightarrow> nat \<times> entryStore" where
  "arr_sort cmp a h = (a, h[a := js_sort cmp (h ! a)])"

definition arr_slice0 :: "int \<Rightarrow> nat \<Rightarrow> entryStore \<Rightarrow> nat \<times> entryStore" where
  "arr_slice0 n a h = (length h, h @ [slice0 n (h ! a)])"

text \<open>\<open>memoriesRef\<close> is the array \<^verbatim>\<open>this.memories\<close> refers to.\<close>

definition getMemorySummary_store :: "int option \<Rightarrow> nat \<Rightarrow> entryStore \<Rightarrow> jsstring \<times> entryStore" where
  "getMemorySummary_store maxEntries memoriesRef h =
     (case arr_filter (\<lambda>m. me_relevance m > 0.6 \<and> me_confidence m > 0.5) memoriesRef h of
        (a1, h1) \<Rightarrow>
     (case arr_sort byScoreDesc a1 h1 of
        (a2, h2) \<Rightarrow>
     (case arr_slice0 (case maxEntries of Some n \<Rightarrow> n | None \<Rightarrow> 10) a2 h2 of
        (importantMemories, h3) \<Rightarrow>
          (if length (h3 ! importantMemories) = 0 then s_no_memory
           else s_important_memory @ join s_newline (map memoryLine (h3 ! importantMemories)),
           h3))))"

section \<open>Notions used to state and prove the properties\<close>

text \<open>The number of suggestions that name a target.\<close>

definition suggestionVotes :: "PlayerId \<Rightarrow> Suggestion list \<Rightarrow> nat" where
  "suggestionVotes t suggestions =
     length (filter (\<lambda>sg. sg_suggestedTarget sg = t) suggestions)"

text \<open>A speech of a player outside the werewolf team whose text carries a god-role sign.\<close>

definition godRoleSpeech :: "WerewolfCommunicationContext \<Rightarrow> Speech \<Rightarrow> bool" where
  "godRoleSpeech ctx speech =
     (sp_playerId speech \<notin> set (werewolfTeam ctx) \<and>
      (seerSign (sp_content speech) \<or> witchSign (sp_content speech)))"

text \<open>The speeches of a history in the order the loops of the source visit them.\<close>

definition speechesInOrder :: "AllSpeeches \<Rightarrow> Speech list" where
  "speechesInOrder allSpeeches = concat (map snd allSpeeches)"

text \<open>A score that is a valid confidence, relevance or threat level.\<close>

definition unitInterval :: "rat \<Rightarrow> bool" where
  "unitInterval q = (0 \<le> q \<and> q \<le> 1)"


section \<open>Concrete scenarios\<close>

definition clock_example :: "nat \<Rightarrow> Clock" where
  "clock_example k = \<lparr>now_id = 1000 + k, random_part = [107, 51, 48 + k mod 10], now_ts = 1000 + k\<rparr>"

text \<open>A message log with one message in each of the rounds 3, 6, 7 and 10.\<close>

definition log_example :: WerewolfCommunicationSystem where
  "log_example =
     foldl (\<lambda>s r. addMessage (clock_example r) 1 s_routine_discussion r strategy s)
       WerewolfCommunicationSystem_new [3, 6, 7, 10]"

text \<open>Four alive werewolves 1 to 4 among eight players.\<close>

definition context_example :: WerewolfCommunicationContext where
  "context_example =
     \<lparr>ctx_round = 2,
      alivePlayers = map (\<lambda>i. \<lparr>pi_id = i, isAlive = True\<rparr>) [1, 2, 3, 4, 5, 6, 7, 8],
      werewolfTeam = [1, 2, 3, 4], aliveWerewolves = [1, 2, 3, 4],
      targetCandidates = [5, 6, 7, 8], gameAnalysis = s_no_memory, urgencyLevel = medium\<rparr>"




text \<open>
  A history in which player 1, a werewolf, claims to be the seer and player 5 says nothing
  of note, then player 6 claims to be the seer and player 7 mentions a potion.
\<close>

definition speeches_example :: AllSpeeches where
  "speeches_example =
     [(1, [\<lparr>sp_playerId = 1, sp_content = s_i_am_seer\<rparr>,
           \<lparr>sp_playerId = 5, sp_content = s_general_speech\<rparr>]),
      (2, [\<lparr>sp_playerId = 6, sp_content = s_i_am_seer\<rparr>,
           \<lparr>sp_playerId = 7, sp_content = s_witch_primary\<rparr>])]"

text \<open>
  An observer, player 1, a villager; player 3 first claims to be the seer and in the next
  round denies it.  The second history is the same exchange in the opposite order.
\<close>

definition observer :: AIMemorySystem where
  "observer = AIMemorySystem_new VILLAGER 1 None"

definition seer_claim :: Speech where
  "seer_claim = \<lparr>sp_playerId = 3, sp_content = s_i_am_seer\<rparr>"

definition seer_denial :: Speech where
  "seer_denial = \<lparr>sp_playerId = 3, sp_content = s_i_am_not_seer\<rparr>"

definition roster_example :: "PlayerInfo list" where
  "roster_example = map (\<lambda>i. \<lparr>pi_id = i, isAlive = True\<rparr>) [1, 2, 3, 4, 5, 6, 7, 8]"

definition claim_then_denial :: "MemoryCall list" where
  "claim_then_denial =
     [AnalyzeSpeech clock_example seer_claim [(1, [seer_claim])] roster_example,
      UpdateGameContext 2 DAY,
      AnalyzeSpeech clock_example seer_denial [(1, [seer_claim]), (2, [seer_denial])]
        roster_example]"

definition denial_then_claim :: "MemoryCall list" where
  "denial_then_claim =
     [AnalyzeSpeech clock_example seer_denial [(1, [seer_denial])] roster_example,
      UpdateGameContext 2 DAY,
      AnalyzeSpeech clock_example seer_claim [(1, [seer_denial]), (2, [seer_claim])]
        roster_example]"

text \<open>The argument of \<^verbatim>\<open>generateStrategy\<close> in a first round without speeches or votes.\<close>

definition strategy_context_example :: StrategyContext where
  "strategy_context_example =
     \<lparr>sc_currentPhase = DAY, sc_alivePlayers = roster_example,
      sc_allSpeeches = [], sc_allVotes = []\<rparr>"

text \<open>
  Player 5 says nothing of note; the observer analyses that speech a hundred times.
\<close>

definition plain_speech :: Speech where
  "plain_speech = \<lparr>sp_playerId = 5, sp_content = s_general_speech\<rparr>"

definition hundred_speeches :: "MemoryCall list" where
  "hundred_speeches =
     replicate 100 (AnalyzeSpeech clock_example plain_speech [(1, [plain_speech])]
                      roster_example)"

text \<open>
  A state with one profile that is suspected to be a werewolf and carries three recorded
  contradictions.
\<close>

definition suspicious_state :: AIMemorySystem where
  "suspicious_state =
     observer\<lparr>playerProfiles :=
       [(3, \<lparr>pp_playerId = 3, suspectedRole = Some WEREWOLF, pp_confidence = 0,
              behaviors = [],
              contradictions = [s_role_claim_contradiction, s_role_claim_contradiction,
                                s_inspect_contradiction],
              alliances = [], threats = [], lastUpdated = 1\<rparr>)]\<rparr>"


section \<open>Facts about the JavaScript map operations\<close>


lemma map_of_Map_set: "map_of (Map_set m k v) = (map_of m)(k \<mapsto> v)"
  by (induction m) (auto simp: fun_eq_iff)

lemma fst_set_Map_set: "fst ` set (Map_set m k v) = insert k (fst ` set m)"
  by (simp add: dom_map_of_conv_image_fst [symmetric] map_of_Map_set)

lemma Map_has_iff: "Map_has m k \<longleftrightarrow> k \<in> fst ` set m"
  by (simp add: Map_has_def map_of_eq_None_iff)

section \<open>Facts about the target analysis and the team decision\<close>

lemma tallyStep_get:
  "Map_get (tallyStep a sg) t =
     (if sg_suggestedTarget sg = t
      then Some (let d = (case Map_get a t of Some d \<Rightarrow> d
                          | None \<Rightarrow> \<lparr>votes = 0, totalPriority = 0, reasons = [], riskLevel = 0\<rparr>)
                 in d\<lparr>votes := votes d + 1, totalPriority := totalPriority d + sg_priority sg,
                      reasons := reasons d @ [sg_reason sg]\<rparr>)
      else Map_get a t)"
  by (auto simp: tallyStep_def Let_def Map_has_def Map_get_def map_of_Map_set split: option.splits)

lemma tallyStep_keys: "fst ` set (tallyStep a sg) = insert (sg_suggestedTarget sg) (fst ` set a)"
  by (auto simp: tallyStep_def Let_def fst_set_Map_set Map_has_iff Map_get_def map_of_Map_set split: option.splits)

lemma tally_keys: "fst ` set (foldl tallyStep a sgs) = fst ` set a \<union> sg_suggestedTarget ` set sgs"
  by (induction sgs arbitrary: a) (auto simp: tallyStep_keys)

lemma tally_votes:
  "Map_get (foldl tallyStep a sgs) t = Some d \<Longrightarrow>
   votes d = (case Map_get a t of Some d0 \<Rightarrow> votes d0 | None \<Rightarrow> 0) + suggestionVotes t sgs"
proof (induction sgs arbitrary: a d)
  case Nil
  then show ?case by (simp add: suggestionVotes_def)
next
  case (Cons sg sgs)
  from Cons.IH[of "tallyStep a sg" d] Cons.prems
  show ?case
    by (auto simp: tallyStep_get suggestionVotes_def Let_def split: option.splits if_splits)
qed

lemma tally_priority:
  "Map_get (foldl tallyStep a sgs) t = Some d \<Longrightarrow>
   totalPriority d = (case Map_get a t of Some d0 \<Rightarrow> totalPriority d0 | None \<Rightarrow> 0) +
      sum_list (map sg_priority (filter (\<lambda>sg. sg_suggestedTarget sg = t) sgs))"
proof (induction sgs arbitrary: a d)
  case Nil
  then show ?case by simp
next
  case (Cons sg sgs)
  from Cons.IH[of "tallyStep a sg" d] Cons.prems
  show ?case
    by (auto simp: tallyStep_get Let_def split: option.splits if_splits)
qed


lemma analyze_get:
  "Map_get (map (\<lambda>e. (fst e, (snd e)\<lparr>riskLevel := assessRisk (snd e)\<rparr>)) m) t =
     map_option (\<lambda>d. d\<lparr>riskLevel := assessRisk d\<rparr>) (Map_get m t)"
  unfolding Map_get_def by (induction m) auto

lemma analyze_keys: "fst ` set (analyzeTargetSuggestions sgs) = sg_suggestedTarget ` set sgs"
  by (simp add: analyzeTargetSuggestions_def image_image tally_keys)

lemma analyze_votes:
  assumes "Map_get (analyzeTargetSuggestions sgs) t = Some d"
  shows "votes d = suggestionVotes t sgs"
proof -
  from assms obtain d0 where d0: "Map_get (foldl tallyStep [] sgs) t = Some d0"
    and d: "d = d0\<lparr>riskLevel := assessRisk d0\<rparr>"
    by (auto simp: analyzeTargetSuggestions_def analyze_get)
  from tally_votes[OF d0] d show ?thesis by (simp add: Map_get_def)
qed

lemma analyze_entry:
  assumes "(t, d) \<in> set (analyzeTargetSuggestions sgs)"
  shows "\<exists>d0. d = d0\<lparr>riskLevel := assessRisk d0\<rparr> \<and> (t, d0) \<in> set (foldl tallyStep [] sgs)"
  using assms by (auto simp: analyzeTargetSuggestions_def)

lemma assessRisk_le: "assessRisk d \<le> 0.8"
  by (simp add: assessRisk_def)


lemma distinct_Map_set: "distinct (map fst m) \<Longrightarrow> distinct (map fst (Map_set m k v))"
  by (induction m) (auto simp: fst_set_Map_set)

lemma distinct_tallyStep: "distinct (map fst a) \<Longrightarrow> distinct (map fst (tallyStep a sg))"
  by (auto simp: tallyStep_def Let_def distinct_Map_set split: option.splits)

lemma distinct_tally: "distinct (map fst a) \<Longrightarrow> distinct (map fst (foldl tallyStep a sgs))"
  by (induction sgs arbitrary: a) (auto simp: distinct_tallyStep)

lemma tally_entry_get:
  "(t, d0) \<in> set (foldl tallyStep [] sgs) \<Longrightarrow> Map_get (foldl tallyStep [] sgs) t = Some d0"
  using distinct_tally[of "[]" sgs] by (simp add: Map_get_def)

lemma sum_priorities_nonneg:
  "\<forall>sg\<in>set sgs. 0 \<le> sg_priority sg \<Longrightarrow>
   0 \<le> sum_list (map sg_priority (filter (\<lambda>sg. sg_suggestedTarget sg = t) sgs))"
  by (induction sgs) auto

lemma score_arith:
  "0 \<le> v \<Longrightarrow> 0 \<le> p \<Longrightarrow> r \<le> 0.8 \<Longrightarrow> (- 1 :: rat) < v * 0.4 + p * 0.4 + (1 - r) * 0.2"
  by (simp add: field_simps)

lemma score_above_sentinel:
  assumes nonneg: "\<forall>sg\<in>set sgs. 0 \<le> sg_priority sg"
    and e: "e \<in> set (analyzeTargetSuggestions sgs)"
  shows "targetScore (snd e) > - 1"
proof -
  obtain t d where [simp]: "e = (t, d)" by (cases e)
  from e have "(t, d) \<in> set (analyzeTargetSuggestions sgs)" by simp
  from analyze_entry[OF this] obtain d0 where d: "d = d0\<lparr>riskLevel := assessRisk d0\<rparr>"
    and d0: "(t, d0) \<in> set (foldl tallyStep [] sgs)"
    by blast
  from tally_priority[OF tally_entry_get[OF d0]] sum_priorities_nonneg[OF nonneg, of t]
  have "0 \<le> totalPriority d0" by (simp add: Map_get_def)
  moreover have "assessRisk d0 \<le> 0.8" by (rule assessRisk_le)
  ultimately have "- 1 < rat_of_nat (votes d0) * 0.4 + totalPriority d0 * 0.4 +
      (1 - assessRisk d0) * 0.2" by (intro score_arith) simp_all
  then show ?thesis by (simp add: targetScore_def d)
qed

lemma best_loop:
  "(foldl bestStep (b, sc) m = (b, sc) \<and> (\<forall>e\<in>set m. targetScore (snd e) \<le> sc)) \<or>
   (\<exists>e\<in>set m. foldl bestStep (b, sc) m = (Some (fst e), targetScore (snd e)))"
proof (induction m arbitrary: b sc)
  case Nil
  then show ?case by simp
next
  case (Cons e m)
  show ?case
  proof (cases "targetScore (snd e) > sc")
    case True
    with Cons.IH[of "Some (fst e)" "targetScore (snd e)"] show ?thesis
      by (auto simp: bestStep_def)
  next
    case False
    with Cons.IH[of b sc] show ?thesis
      by (auto simp: bestStep_def)
  qed
qed

lemma best_found:
  assumes "m \<noteq> []" and "\<forall>e\<in>set m. targetScore (snd e) > - 1"
  shows "\<exists>e\<in>set m. fst (foldl bestStep (None, - 1) m) = Some (fst e)"
proof -
  from assms obtain e where "e \<in> set m" "targetScore (snd e) > - 1"
    by (cases m) auto
  with best_loop[of None "- 1" m] show ?thesis by force
qed

lemma best_target_of_suggestions:
  assumes dom: "\<forall>sg\<in>set sgs. 0 \<le> sg_priority sg \<and> sg_suggestedTarget sg \<noteq> 0"
    and ne: "sgs \<noteq> []"
  shows "\<exists>t d'. fst (foldl bestStep (None, - 1) (analyzeTargetSuggestions sgs)) = Some t \<and>
           t \<noteq> 0 \<and> Map_get (analyzeTargetSuggestions sgs) t = Some d' \<and>
           votes d' = suggestionVotes t sgs"
proof -
  let ?m = "analyzeTargetSuggestions sgs"
  from ne have ne: "?m \<noteq> []"
    using analyze_keys[of sgs] by (cases sgs) auto
  from dom have "\<forall>e\<in>set ?m. targetScore (snd e) > - 1"
    using score_above_sentinel[of sgs] by blast
  from best_found[OF ne this] obtain e where e: "e \<in> set ?m"
    and best: "fst (foldl bestStep (None, - 1) ?m) = Some (fst e)" by blast
  from e have "fst e \<in> sg_suggestedTarget ` set sgs"
    using analyze_keys[of sgs] by (metis image_eqI)
  with dom have nz: "fst e \<noteq> 0" by auto
  from e have "fst e \<in> fst ` set ?m" by simp
  then obtain d' where get: "Map_get ?m (fst e) = Some d'"
    by (auto simp: Map_get_def dom_map_of_conv_image_fst [symmetric])
  from analyze_votes[OF get] have "votes d' = suggestionVotes (fst e) sgs" .
  with best nz get show ?thesis by blast
qed

lemma majority_iff:
  "(of_nat v :: rat) > of_nat n / 2 \<longleftrightarrow> 2 * v > n"
proof -
  have "(of_nat v :: rat) > of_nat n / 2 \<longleftrightarrow> (of_nat n :: rat) < of_nat (2 * v)"
    by (simp add: field_simps)
  then show ?thesis by (simp only: of_nat_less_iff)
qed

lemma decision_exists:
  assumes "\<forall>sg\<in>set sgs. 0 \<le> sg_priority sg \<and> sg_suggestedTarget sg \<noteq> 0" and "sgs \<noteq> []"
  shows "\<exists>d s'. negotiateKillTarget ctx sgs s = Inr (d, s')"
  using best_target_of_suggestions[OF assms]
  by (auto simp: negotiateKillTarget_def makeTeamDecision_def Let_def split: list.splits)

lemma consensus_general:
  assumes dom: "\<forall>sg\<in>set sgs. 0 \<le> sg_priority sg \<and> sg_suggestedTarget sg \<noteq> 0"
    and res: "negotiateKillTarget ctx sgs s = Inr (d, s')"
  shows "consensus d \<longleftrightarrow> 2 * suggestionVotes (targetPlayerId d) sgs > length (aliveWerewolves ctx)"
proof (cases "sgs = []")
  case True
  with res show ?thesis
    by (auto simp: negotiateKillTarget_def analyzeTargetSuggestions_def makeTeamDecision_def
        Let_def Map_get_def suggestionVotes_def split: sum.splits list.splits if_splits)
next
  case False
  from best_target_of_suggestions[OF dom False] obtain t d'
    where "fst (foldl bestStep (None, - 1) (analyzeTargetSuggestions sgs)) = Some t"
      and "t \<noteq> 0" and "Map_get (analyzeTargetSuggestions sgs) t = Some d'"
      and "votes d' = suggestionVotes t sgs" by blast
  with res show ?thesis
    by (auto simp: negotiateKillTarget_def makeTeamDecision_def Let_def majority_iff
        split: sum.splits list.splits if_splits)
qed

lemma assessRisk_ge: "0.3 \<le> assessRisk d"
  by (simp add: assessRisk_def)

lemma best_loop_max:
  "snd (foldl bestStep (b, sc) m) \<ge> sc \<and>
   (\<forall>e\<in>set m. targetScore (snd e) \<le> snd (foldl bestStep (b, sc) m))"
proof (induction m arbitrary: b sc)
  case Nil
  then show ?case by simp
next
  case (Cons e m)
  show ?case
  proof (cases "targetScore (snd e) > sc")
    case True
    with Cons.IH[where b = "Some (fst e)" and sc = "targetScore (snd e)"] show ?thesis
      by (auto simp: bestStep_def)
  next
    case False
    with Cons.IH[where b = b and sc = sc] show ?thesis
      by (auto simp: bestStep_def)
  qed
qed

lemma sum_list_const:
  "\<forall>x\<in>set xs. f x = (c::rat) \<Longrightarrow> sum_list (map f xs) = of_nat (length xs) * c"
  by (induction xs) (auto simp: algebra_simps)

lemma analyze_priority:
  assumes "Map_get (analyzeTargetSuggestions sgs) t = Some d"
  shows "totalPriority d =
     sum_list (map sg_priority (filter (\<lambda>sg. sg_suggestedTarget sg = t) sgs))"
proof -
  from assms obtain d0 where d0: "Map_get (foldl tallyStep [] sgs) t = Some d0"
    and d: "d = d0\<lparr>riskLevel := assessRisk d0\<rparr>"
    by (auto simp: analyzeTargetSuggestions_def analyze_get)
  from tally_priority[OF d0] d show ?thesis by (simp add: Map_get_def)
qed

lemma analyze_risk:
  assumes "Map_get (analyzeTargetSuggestions sgs) t = Some d"
  shows "0.3 \<le> riskLevel d \<and> riskLevel d \<le> 0.8"
proof -
  from assms obtain d0 where "d = d0\<lparr>riskLevel := assessRisk d0\<rparr>"
    by (auto simp: analyzeTargetSuggestions_def analyze_get)
  then show ?thesis using assessRisk_ge[of d0] assessRisk_le[of d0] by simp
qed

lemma analyze_entry_get:
  "e \<in> set (analyzeTargetSuggestions sgs) \<Longrightarrow>
   Map_get (analyzeTargetSuggestions sgs) (fst e) = Some (snd e)"
proof -
  assume e: "e \<in> set (analyzeTargetSuggestions sgs)"
  have "distinct (map fst (analyzeTargetSuggestions sgs))"
    using distinct_tally[of "[]" sgs] by (simp add: analyzeTargetSuggestions_def comp_def)
  moreover obtain t d where "e = (t, d)" by (cases e)
  ultimately show ?thesis using e by (simp add: Map_get_def)
qed

lemma example_decision:
  assumes each: "\<forall>sg\<in>set sgs. (sg_suggestedTarget sg = 2 \<and> sg_priority sg = 5) \<or>
                              (sg_suggestedTarget sg = 3 \<and> sg_priority sg = 1)"
    and three: "suggestionVotes 2 sgs = 3" and one: "suggestionVotes 3 sgs = 1"
    and allies: "length (aliveWerewolves ctx) = 4"
  shows "\<exists>d s'. negotiateKillTarget ctx sgs s = Inr (d, s') \<and> targetPlayerId d = 2 \<and> consensus d"
proof -
  let ?m = "analyzeTargetSuggestions sgs"
  have keys: "fst ` set ?m \<subseteq> {2, 3}"
    using each by (auto simp: analyze_keys)
  from three have "filter (\<lambda>sg. sg_suggestedTarget sg = 2) sgs \<noteq> []"
    by (auto simp: suggestionVotes_def)
  then have "2 \<in> sg_suggestedTarget ` set sgs"
    by (auto simp: filter_empty_conv)
  then have "2 \<in> fst ` set ?m" by (simp add: analyze_keys)
  then obtain d2 where in2: "(2, d2) \<in> set ?m" by auto
  from analyze_entry_get[OF in2] have get2: "Map_get ?m 2 = Some d2" by simp
  have v2: "votes d2 = 3" using analyze_votes[OF get2] three by simp
  have "\<forall>sg\<in>set (filter (\<lambda>sg. sg_suggestedTarget sg = 2) sgs). sg_priority sg = 5"
    using each by auto
  from sum_list_const[OF this] three
  have p2: "totalPriority d2 = 15"
    by (simp add: analyze_priority[OF get2] suggestionVotes_def)
  have s2: "targetScore d2 \<ge> 7.24"
    using analyze_risk[OF get2] by (simp add: targetScore_def v2 p2 field_simps)
  have score3: "targetScore d3 \<le> 0.94" if "(3, d3) \<in> set ?m" for d3
  proof -
    from analyze_entry_get[OF that] have get3: "Map_get ?m 3 = Some d3" by simp
    have v3: "votes d3 = 1" using analyze_votes[OF get3] one by simp
    have "\<forall>sg\<in>set (filter (\<lambda>sg. sg_suggestedTarget sg = 3) sgs). sg_priority sg = 1"
      using each by auto
    from sum_list_const[OF this] one
    have p3: "totalPriority d3 = 1"
      by (simp add: analyze_priority[OF get3] suggestionVotes_def)
    show ?thesis using analyze_risk[OF get3] by (simp add: targetScore_def v3 p3 field_simps)
  qed
  from in2 have ne: "?m \<noteq> []" by auto
  have "foldl bestStep (None, - 1) ?m \<noteq> (None, - 1)"
    using best_loop_max[of "- 1" None ?m] in2 s2 by force
  with best_loop[of None "- 1" ?m] obtain e where e: "e \<in> set ?m"
    and best: "foldl bestStep (None, - 1) ?m = (Some (fst e), targetScore (snd e))" by blast
  have "fst e = 2"
  proof (rule ccontr)
    assume "fst e \<noteq> 2"
    with keys e have "fst e = 3" by auto
    with e have "(3, snd e) \<in> set ?m" by (metis prod.collapse)
    from score3[OF this] have "targetScore (snd e) \<le> 0.94" .
    moreover from best_loop_max[of "- 1" None ?m] in2 best
    have "targetScore d2 \<le> targetScore (snd e)" by force
    ultimately show False using s2 by simp
  qed
  with best have b: "fst (foldl bestStep (None, - 1) ?m) = Some 2" by simp
  show ?thesis
    using b get2 v2 allies
    by (auto simp: negotiateKillTarget_def makeTeamDecision_def Let_def split: list.splits)
qed

text \<open>
  When the context lists a first target candidate with an id other than 0, the consensus
  flag of the decision is true exactly when the suggestions that name its target are more
  than half the alive werewolves, for every list of suggestions.
\<close>

lemma analyze_absent:
  assumes "Map_get (analyzeTargetSuggestions sgs) t = None"
  shows "suggestionVotes t sgs = 0"
proof -
  from assms have "t \<notin> fst ` set (analyzeTargetSuggestions sgs)"
    by (simp add: Map_get_def map_of_eq_None_iff)
  then have "t \<notin> sg_suggestedTarget ` set sgs" by (simp add: analyze_keys)
  then show ?thesis by (auto simp: suggestionVotes_def filter_empty_conv)
qed

lemma best_in_keys:
  assumes "fst (foldl bestStep (None, - 1) m) = Some t"
  shows "t \<in> fst ` set m"
  using best_loop[of None "- 1" m] assms by force

lemma consensus_with_candidate:
  assumes cand: "targetCandidates ctx = c # cs" and nz: "c \<noteq> 0"
    and res: "negotiateKillTarget ctx sgs s = Inr (d, s')"
  shows "consensus d \<longleftrightarrow>
         2 * suggestionVotes (targetPlayerId d) sgs > length (aliveWerewolves ctx)"
proof -
  let ?m = "analyzeTargetSuggestions sgs"
  let ?best = "fst (foldl bestStep (None, - 1) ?m)"
  have votes: "(case Map_get ?m t of Some d' \<Rightarrow>
                  (of_nat (votes d') :: rat) > of_nat (length (aliveWerewolves ctx)) / 2
                | None \<Rightarrow> False) \<longleftrightarrow>
               2 * suggestionVotes t sgs > length (aliveWerewolves ctx)" for t
  proof (cases "Map_get ?m t")
    case None
    from analyze_absent[OF this] None show ?thesis by simp
  next
    case (Some d')
    from analyze_votes[OF this] have "votes d' = suggestionVotes t sgs" .
    then show ?thesis by (simp only: Some option.case majority_iff)
  qed
  show ?thesis
  proof (cases "truthy ?best")
    case True
    then obtain t where t: "?best = Some t" "t \<noteq> 0" by (cases ?best) auto
    with res cand have "targetPlayerId d = t"
      and "consensus d = (case Map_get ?m t of Some d' \<Rightarrow>
                  (of_nat (votes d') :: rat) > of_nat (length (aliveWerewolves ctx)) / 2
                | None \<Rightarrow> False)"
      by (auto simp: negotiateKillTarget_def makeTeamDecision_def Let_def)
    with votes[of t] show ?thesis by simp
  next
    case False
    with res cand nz have "targetPlayerId d = c"
      and "consensus d = (case Map_get ?m c of Some d' \<Rightarrow>
                  (of_nat (votes d') :: rat) > of_nat (length (aliveWerewolves ctx)) / 2
                | None \<Rightarrow> False)"
      by (auto simp: negotiateKillTarget_def makeTeamDecision_def Let_def)
    with votes[of c] show ?thesis by simp
  qed
qed

section \<open>Facts about the situation scan\<close>


lemma lowerUnit_eq_iff: "122 < k \<Longrightarrow> lowerUnit c = k \<longleftrightarrow> c = k"
  by (auto simp: lowerUnit_def)

lemma startsWith_lower:
  "\<forall>k\<in>set pat. 122 < k \<Longrightarrow> startsWith (map lowerUnit s) pat = startsWith s pat"
proof (induction s pat rule: startsWith.induct)
  case (3 c cs p ps)
  then show ?case by (simp add: lowerUnit_eq_iff)
qed simp_all

lemma includes_lower:
  "\<forall>k\<in>set pat. 122 < k \<Longrightarrow> pat \<noteq> [] \<Longrightarrow> js_includes (toLowerCase s) pat = js_includes s pat"
  unfolding toLowerCase_def
proof (induction s)
  case Nil
  then show ?case by simp
next
  case (Cons c s)
  from Cons.prems(1) have "startsWith (map lowerUnit (c # s)) pat = startsWith (c # s) pat"
    by (rule startsWith_lower)
  with Cons show ?case by simp
qed

lemma seerSign_lower: "seerSign (toLowerCase t) = seerSign t"
  by (simp add: seerSign_def includes_lower)

lemma witchSign_lower: "witchSign (toLowerCase t) = witchSign t"
  by (simp add: witchSign_def includes_lower)

lemma suspicion_candidates:
  "godRoleCandidates (foldl (suspicionStep sp text) a ws) = godRoleCandidates a"
  by (induction ws arbitrary: a) (auto simp: suspicionStep_def)

lemma speechStep_candidates:
  "godRoleCandidates (speechStep ctx a sp) =
     (if godRoleSpeech ctx sp \<and> sp_playerId sp \<notin> set (godRoleCandidates a)
      then godRoleCandidates a @ [sp_playerId sp] else godRoleCandidates a)"
  by (auto simp: speechStep_def Let_def godRoleSpeech_def seerSign_lower witchSign_lower
      addCandidate_def suspicion_candidates)


lemma speeches_keep_first:
  "godRoleCandidates a = g # gs \<Longrightarrow>
   \<exists>gs'. godRoleCandidates (foldl (speechStep ctx) a sps) = g # gs'"
proof (induction sps arbitrary: a gs)
  case Nil
  then show ?case by simp
next
  case (Cons sp sps)
  from Cons.prems have "\<exists>gs1. godRoleCandidates (speechStep ctx a sp) = g # gs1"
    by (simp add: speechStep_candidates)
  then obtain gs1 where "godRoleCandidates (speechStep ctx a sp) = g # gs1" ..
  from Cons.IH[OF this] show ?case by simp
qed

lemma speeches_first_candidate:
  "godRoleCandidates a = [] \<Longrightarrow> find (godRoleSpeech ctx) sps = Some sp \<Longrightarrow>
   \<exists>gs. godRoleCandidates (foldl (speechStep ctx) a sps) = sp_playerId sp # gs"
proof (induction sps arbitrary: a)
  case Nil
  then show ?case by simp
next
  case (Cons x sps)
  show ?case
  proof (cases "godRoleSpeech ctx x")
    case True
    with Cons.prems have "x = sp" by simp
    with True Cons.prems(1) have "godRoleCandidates (speechStep ctx a x) = [sp_playerId sp]"
      by (simp add: speechStep_candidates)
    from speeches_keep_first[OF this] show ?thesis by simp
  next
    case False
    with Cons.prems have "godRoleCandidates (speechStep ctx a x) = []"
      and "find (godRoleSpeech ctx) sps = Some sp"
      by (simp_all add: speechStep_candidates)
    from Cons.IH[OF this] show ?thesis by simp
  qed
qed

lemma foldl_rounds:
  "foldl (\<lambda>a e. foldl f a (snd e)) a0 rounds = foldl f a0 (concat (map snd rounds))"
  by (induction rounds arbitrary: a0) simp_all

lemma votes_candidates:
  "godRoleCandidates (foldl (voteStep ctx) a vs) = godRoleCandidates a"
  by (induction vs arbitrary: a) (auto simp: voteStep_def)

lemma safe_candidates:
  "godRoleCandidates (foldl (safeStep ctx) a ps) = godRoleCandidates a"
  by (induction ps arbitrary: a) (auto simp: safeStep_def)

lemma situation_first_candidate:
  assumes "find (godRoleSpeech ctx) (speechesInOrder allSpeeches) = Some sp"
  shows "\<exists>gs. godRoleCandidates (analyzeGameSituation ctx allSpeeches allVotes) = sp_playerId sp # gs"
  using speeches_first_candidate[OF _ assms[unfolded speechesInOrder_def], of
      "\<lparr>threatLevel = medium, suspiciousPlayers = [], godRoleCandidates = [],
        safePlayers = [], urgentActions = []\<rparr>"]
  by (simp add: analyzeGameSituation_def Let_def safe_candidates votes_candidates foldl_rounds)

text \<open>
  \<^verbatim>\<open>includes\<close> finds a pattern exactly in the texts that are some prefix, the pattern
  and some suffix.
\<close>


lemma startsWith_iff: "startsWith s pat \<longleftrightarrow> (\<exists>post. s = pat @ post)"
  by (induction s pat rule: startsWith.induct) auto

lemma js_includes_iff: "js_includes s pat \<longleftrightarrow> (\<exists>pre post. s = pre @ pat @ post)"
proof (induction s)
  case Nil
  then show ?case by auto
next
  case (Cons c cs)
  show ?case
  proof
    assume "js_includes (c # cs) pat"
    then consider "startsWith (c # cs) pat" | "js_includes cs pat" by auto
    then show "\<exists>pre post. c # cs = pre @ pat @ post"
    proof cases
      case 1
      then obtain post where "c # cs = pat @ post" by (auto simp: startsWith_iff)
      then have "c # cs = [] @ pat @ post" by simp
      then show ?thesis by blast
    next
      case 2
      with Cons.IH obtain pre post where "cs = pre @ pat @ post" by auto
      then have "c # cs = (c # pre) @ pat @ post" by simp
      then show ?thesis by blast
    qed
  next
    assume "\<exists>pre post. c # cs = pre @ pat @ post"
    then obtain pre post where eq: "c # cs = pre @ pat @ post" by blast
    show "js_includes (c # cs) pat"
    proof (cases pre)
      case Nil
      with eq have "startsWith (c # cs) pat" by (auto simp: startsWith_iff)
      then show ?thesis by simp
    next
      case (Cons p ps)
      with eq have "cs = ps @ pat @ post" by simp
      with Cons.IH have "js_includes cs pat" by blast
      then show ?thesis by simp
    qed
  qed
qed

lemma godRoleSpeech_iff:
  "godRoleSpeech ctx sp \<longleftrightarrow>
     sp_playerId sp \<notin> set (werewolfTeam ctx) \<and>
     (\<exists>kw\<in>{s_seer, s_inspect, s_checked_last_night, s_witch, s_potion, s_save, s_poison}.
        \<exists>pre post. sp_content sp = pre @ kw @ post)"
  unfolding godRoleSpeech_def seerSign_def witchSign_def js_includes_iff by blast

lemma find_first:
  "P y \<Longrightarrow> \<forall>x\<in>set xs. \<not> P x \<Longrightarrow> find P (xs @ y # ys) = Some y"
  by (induction xs) auto


section \<open>Facts about cleanup\<close>

lemma foldl_cleanupStep:
  "foldl (cleanupStep cur) h rs =
     filter (\<lambda>e. \<not> (fst e \<in> set rs \<and> int cur - int (fst e) > 3)) h"
proof (induction rs arbitrary: h)
  case Nil
  then show ?case by simp
next
  case (Cons r rs)
  have "foldl (cleanupStep cur) (cleanupStep cur h r) rs =
        filter (\<lambda>e. \<not> (fst e \<in> set rs \<and> int cur - int (fst e) > 3)) (cleanupStep cur h r)"
    by (rule Cons.IH)
  also have "\<dots> = filter (\<lambda>e. \<not> (fst e \<in> set (r # rs) \<and> int cur - int (fst e) > 3)) h"
    by (auto simp: cleanupStep_def Map_delete_def intro!: filter_cong)
  finally show ?case by simp
qed

lemma cleanup_history:
  "communicationHistory (cleanup cur s) =
     filter (\<lambda>e. \<not> int cur - int (fst e) > 3) (communicationHistory s)"
  unfolding cleanup_def by (simp add: foldl_cleanupStep) (rule filter_cong, auto)

lemma cleanup_messages:
  "messages (cleanup cur s) = filter (\<lambda>m. \<not> int cur - int (wm_round m) > 3) (messages s)"
  unfolding cleanup_def by (simp add: not_less)

section \<open>Facts about sorting and insertion\<close>


lemma sortInsert_key:
  "sortInsert (\<lambda>a b. key b - key a) x ys = insort_key (\<lambda>m. - key m) x ys"
  by (induction ys) auto

lemma js_sort_key:
  "js_sort (\<lambda>a b. key b - key a) xs = sort_key (\<lambda>m. - key m) xs"
  by (induction xs) (auto simp: sortInsert_key)

lemma js_sort_byScoreDesc: "js_sort byScoreDesc xs = sort_key (\<lambda>m. - memoryScore m) xs"
  using js_sort_key[of memoryScore xs] by (simp add: byScoreDesc_def[abs_def])

lemma set_sortInsert: "set (sortInsert cmp x ys) = insert x (set ys)"
  by (induction ys) auto

lemma set_js_sort: "set (js_sort cmp xs) = set xs"
  by (induction xs) (auto simp: set_sortInsert)

lemma length_sortInsert: "length (sortInsert cmp x ys) = Suc (length ys)"
  by (induction ys) auto

lemma length_js_sort: "length (js_sort cmp xs) = length xs"
  by (induction xs) (auto simp: length_sortInsert)

lemma memories_addMemory:
  "memories (addMemory clk ty pid text conf rel src s) =
     (if length (memories s) \<ge> 100
      then take 80 (js_sort byScoreDesc (memories s @ [newMemory clk ty pid text conf rel src s]))
      else memories s @ [newMemory clk ty pid text conf rel src s])"
  by (auto simp: addMemory_def Let_def slice0_def)

lemma addMemory_other [simp]:
  "playerProfiles (addMemory clk ty pid text conf rel src s) = playerProfiles s"
  "gameContext (addMemory clk ty pid text conf rel src s) = gameContext s"
  by (simp_all add: addMemory_def Let_def)

lemma length_addMemory: "length (memories (addMemory clk ty pid text conf rel src s)) \<le> 100"
  by (simp add: memories_addMemory length_js_sort)

lemma set_addMemory:
  "set (memories (addMemory clk ty pid text conf rel src s)) \<subseteq>
     insert (newMemory clk ty pid text conf rel src s) (set (memories s))"
  using set_take_subset[of 80 "js_sort byScoreDesc (memories s @ [newMemory clk ty pid text conf rel src s])"]
  by (auto simp: memories_addMemory set_js_sort)

lemma evicted_sorted:
  "sorted_wrt (\<lambda>a b. memoryScore a \<ge> memoryScore b) (take n (js_sort byScoreDesc xs))"
proof -
  have "sorted (map (\<lambda>m. - memoryScore m) (sort_key (\<lambda>m. - memoryScore m) xs))"
    by (rule sorted_sort_key)
  then have "sorted_wrt (\<lambda>a b. memoryScore a \<ge> memoryScore b) (js_sort byScoreDesc xs)"
    by (simp add: js_sort_byScoreDesc sorted_map)
  then show ?thesis by (rule sorted_wrt_take)
qed

lemma updatePlayerProfile_other [simp]:
  "memories (updatePlayerProfile pid an alive s) = memories s"
  "gameContext (updatePlayerProfile pid an alive s) = gameContext s"
  by (simp_all add: updatePlayerProfile_def Let_def)

lemma updateGameContext_other [simp]:
  "memories (updateGameContext r ph s) = memories s"
  "playerProfiles (updateGameContext r ph s) = playerProfiles s"
  by (simp_all add: updateGameContext_def)



section \<open>Facts about the scores the memory system computes\<close>

lemma unitInterval_min: "0 \<le> q \<Longrightarrow> unitInterval (min q 1)"
  by (simp add: unitInterval_def)

lemma bucket_ge: "c \<le> snd kc \<Longrightarrow> c \<le> snd (bucket hit tag kc)"
  by (simp add: bucket_def)

lemma insights_confidence: "unitInterval (si_confidence (extractSpeechInsights sp allSpeeches))"
  unfolding extractSpeechInsights_def Let_def
  by (simp del: min_less_iff_conj) (intro unitInterval_min bucket_ge, simp)

lemma relevance_unit: "unitInterval (calculateRelevance s pid kws)"
  by (simp add: calculateRelevance_def Let_def unitInterval_def)

lemma patternStep_confidence:
  "\<forall>p\<in>set acc. unitInterval (vp_confidence p) \<Longrightarrow>
   \<forall>p\<in>set (patternStep allVotes acc e). unitInterval (vp_confidence p)"
  by (auto simp: patternStep_def Let_def unitInterval_def)

lemma patterns_confidence_acc:
  "\<forall>p\<in>set acc. unitInterval (vp_confidence p) \<Longrightarrow>
   \<forall>p\<in>set (foldl (patternStep allVotes) acc groups). unitInterval (vp_confidence p)"
proof (induction groups arbitrary: acc)
  case Nil
  then show ?case by simp
next
  case (Cons g groups)
  from Cons.prems have "\<forall>p\<in>set (patternStep allVotes acc g). unitInterval (vp_confidence p)"
    by (rule patternStep_confidence)
  from Cons.IH[OF this] show ?case by simp
qed

lemma patterns_confidence:
  "\<forall>p\<in>set (extractVotingPatterns vs allVotes). unitInterval (vp_confidence p)"
  unfolding extractVotingPatterns_def by (rule patterns_confidence_acc) simp


lemma roleScoreStep_nonneg:
  "(case sc of (a, b, c, d) \<Rightarrow> 0 \<le> a \<and> 0 \<le> b \<and> 0 \<le> c \<and> 0 \<le> d) \<Longrightarrow>
   (case roleScoreStep sc sp of (a, b, c, d) \<Rightarrow> 0 \<le> a \<and> 0 \<le> b \<and> 0 \<le> c \<and> 0 \<le> d)"
  by (cases sc) (simp add: roleScoreStep_def Let_def)

lemma role_scores_nonneg:
  "(case sc of (a, b, c, d) \<Rightarrow> 0 \<le> a \<and> 0 \<le> b \<and> 0 \<le> c \<and> 0 \<le> d) \<Longrightarrow>
   (case foldl roleScoreStep sc sps of (a, b, c, d) \<Rightarrow> 0 \<le> a \<and> 0 \<le> b \<and> 0 \<le> c \<and> 0 \<le> d)"
proof (induction sps arbitrary: sc)
  case Nil
  then show ?case by simp
next
  case (Cons sp sps)
  from Cons.IH[OF roleScoreStep_nonneg[OF Cons.prems]] show ?case by simp
qed

lemma best_guess_confidence:
  assumes "\<forall>e\<in>set scores. 0 \<le> snd e"
  shows "0 \<le> rd_confidence (case js_sort cmp scores of
            bestGuess # _ \<Rightarrow> \<lparr>rd_role = fst bestGuess, rd_confidence = min (snd bestGuess) 0.8\<rparr>
          | [] \<Rightarrow> \<lparr>rd_role = WEREWOLF, rd_confidence = 0\<rparr>) \<and>
         rd_confidence (case js_sort cmp scores of
            bestGuess # _ \<Rightarrow> \<lparr>rd_role = fst bestGuess, rd_confidence = min (snd bestGuess) 0.8\<rparr>
          | [] \<Rightarrow> \<lparr>rd_role = WEREWOLF, rd_confidence = 0\<rparr>) \<le> 0.8"
proof (cases "js_sort cmp scores")
  case Nil
  then show ?thesis by simp
next
  case (Cons b bs)
  then have "b \<in> set scores" using set_js_sort[of cmp scores] by auto
  with assms have "0 \<le> snd b" by blast
  with Cons show ?thesis by simp
qed

lemma analyzePlayerRole_confidence:
  "0 \<le> rd_confidence (analyzePlayerRole s pid allSpeeches allVotes) \<and>
   rd_confidence (analyzePlayerRole s pid allSpeeches allVotes) \<le> 0.8"
proof -
  obtain w se wi v where f: "foldl roleScoreStep (0, 0, 0, 0) (speechesOf pid allSpeeches) = (w, se, wi, v)"
    by (metis prod_cases4)
  from role_scores_nonneg[of "(0, 0, 0, 0)" "speechesOf pid allSpeeches"] f
  have nn: "0 \<le> w" "0 \<le> se" "0 \<le> wi" "0 \<le> v" by simp_all
  let ?w = "(case Map_get (playerProfiles s) pid of
                   Some profile \<Rightarrow> if length (contradictions profile) > 1
                                    then w + 0.3 else w
                 | None \<Rightarrow> w)"
  have "0 \<le> ?w" using nn by (simp split: option.splits)
  with nn have "\<forall>e\<in>set [(WEREWOLF, ?w), (SEER, se), (WITCH, wi), (VILLAGER, v)]. 0 \<le> snd e"
    by simp
  from best_guess_confidence[OF this] show ?thesis
    unfolding analyzePlayerRole_def f by (simp only: prod.case Let_def)
qed

lemma analyzePlayerRole_unit: "unitInterval (rd_confidence (analyzePlayerRole s pid allSpeeches allVotes))"
  using analyzePlayerRole_confidence[of s pid allSpeeches allVotes] by (simp add: unitInterval_def)


section \<open>Invariants of call sequences\<close>

text \<open>
  A property of the system that every insertion with scores in the unit interval, every
  profile update and every context update preserves is preserved by every public call.
\<close>

lemma analyzeSpeech_preserves:
  assumes add: "\<And>clk ty pid text conf rel src s. I s \<Longrightarrow> unitInterval conf \<Longrightarrow> unitInterval rel \<Longrightarrow>
                  I (addMemory clk ty pid text conf rel src s)"
    and prof: "\<And>pid an alive s. I s \<Longrightarrow> I (updatePlayerProfile pid an alive s)"
    and s: "I s"
  shows "I (analyzeSpeech clocks sp allSpeeches alive s)"
proof -
  let ?an = "extractSpeechInsights sp allSpeeches"
  let ?s1 = "addMemory (clocks 0) speech_analysis (Some (sp_playerId sp)) (summary ?an)
                 (si_confidence ?an) (calculateRelevance s (sp_playerId sp) (si_keywords ?an))
                 observation s"
  have "I ?s1" by (intro add s insights_confidence relevance_unit)
  then have s2: "I (updatePlayerProfile (sp_playerId sp) ?an alive ?s1)" by (rule prof)
  have "unitInterval 0.8" "unitInterval 0.9" by (simp_all add: unitInterval_def)
  with s2 show ?thesis
    unfolding analyzeSpeech_def Let_def by (auto intro: add)
qed

lemma patternMemory_preserves:
  assumes add: "\<And>clk ty pid text conf rel src s. I s \<Longrightarrow> unitInterval conf \<Longrightarrow> unitInterval rel \<Longrightarrow>
                  I (addMemory clk ty pid text conf rel src s)"
  shows "I (snd ks) \<Longrightarrow> \<forall>p\<in>set ps. unitInterval (vp_confidence p) \<Longrightarrow>
         I (snd (foldl (patternMemory clocks) ks ps))"
proof (induction ps arbitrary: ks)
  case Nil
  then show ?case by simp
next
  case (Cons p ps)
  have "unitInterval 0.8" by (simp add: unitInterval_def)
  with Cons.prems have "I (snd (patternMemory clocks ks p))"
    by (simp add: patternMemory_def add)
  with Cons.prems show ?case by (simp add: Cons.IH)
qed

lemma analyzeVotingPattern_preserves:
  assumes add: "\<And>clk ty pid text conf rel src s. I s \<Longrightarrow> unitInterval conf \<Longrightarrow> unitInterval rel \<Longrightarrow>
                  I (addMemory clk ty pid text conf rel src s)"
    and s: "I s"
  shows "I (analyzeVotingPattern clocks vs allVotes alive s)"
  unfolding analyzeVotingPattern_def
  using patternMemory_preserves[of I "(0, s)" "extractVotingPatterns vs allVotes" clocks]
    add s patterns_confidence[of vs allVotes]
  by simp

lemma deduceStep_preserves:
  assumes add: "\<And>clk ty pid text conf rel src s. I s \<Longrightarrow> unitInterval conf \<Longrightarrow> unitInterval rel \<Longrightarrow>
                  I (addMemory clk ty pid text conf rel src s)"
    and s: "I (snd (snd st))"
  shows "I (snd (snd (deduceStep clocks allSpeeches allVotes st player)))"
proof -
  obtain m k s0 where st: "st = (m, k, s0)" by (metis prod_cases3)
  have "unitInterval 0.9" by (simp add: unitInterval_def)
  with s st show ?thesis
    by (auto simp: deduceStep_def Let_def intro!: add analyzePlayerRole_unit)
qed

lemma deduceRoles_preserves:
  assumes add: "\<And>clk ty pid text conf rel src s. I s \<Longrightarrow> unitInterval conf \<Longrightarrow> unitInterval rel \<Longrightarrow>
                  I (addMemory clk ty pid text conf rel src s)"
    and s: "I s"
  shows "I (snd (deduceRoles clocks alive allSpeeches allVotes s))"
proof -
  have "I (snd (snd st)) \<Longrightarrow> I (snd (snd (foldl (deduceStep clocks allSpeeches allVotes) st alive)))" for st
  proof (induction alive arbitrary: st)
    case Nil
    then show ?case by simp
  next
    case (Cons p ps)
    from deduceStep_preserves[of I st clocks allSpeeches allVotes p] add Cons.prems
    have "I (snd (snd (deduceStep clocks allSpeeches allVotes st p)))" by blast
    from Cons.IH[OF this] show ?case by simp
  qed
  from this[of "([], 0, s)"] s show ?thesis
    by (auto simp: deduceRoles_def split: prod.splits)
qed

lemma generateStrategy_preserves:
  assumes add: "\<And>clk ty pid text conf rel src s. I s \<Longrightarrow> unitInterval conf \<Longrightarrow> unitInterval rel \<Longrightarrow>
                  I (addMemory clk ty pid text conf rel src s)"
    and s: "I s"
  shows "I (snd (generateStrategy clk ctx s))"
proof -
  have "unitInterval 0.7" "unitInterval 1.0" by (simp_all add: unitInterval_def)
  with s show ?thesis by (simp add: generateStrategy_def Let_def add)
qed

lemma call_preserves:
  assumes add: "\<And>clk ty pid text conf rel src s. I s \<Longrightarrow> unitInterval conf \<Longrightarrow> unitInterval rel \<Longrightarrow>
                  I (addMemory clk ty pid text conf rel src s)"
    and prof: "\<And>pid an alive s. I s \<Longrightarrow> I (updatePlayerProfile pid an alive s)"
    and ctx: "\<And>r ph s. I s \<Longrightarrow> I (updateGameContext r ph s)"
    and s: "I s"
  shows "I (call s c)"
proof (cases c)
  case (UpdateGameContext r ph)
  with s show ?thesis by (simp add: ctx)
next
  case (AnalyzeSpeech clocks sp allSpeeches alive)
  with analyzeSpeech_preserves[of I s clocks sp allSpeeches alive] add prof s
  show ?thesis by simp
next
  case (AnalyzeVotingPattern clocks vs allVotes alive)
  with analyzeVotingPattern_preserves[of I s clocks vs allVotes alive] add s
  show ?thesis by simp
next
  case (DeduceRoles clocks alive allSpeeches allVotes)
  with deduceRoles_preserves[of I s clocks alive allSpeeches allVotes] add s
  show ?thesis by simp
next
  case (GenerateStrategy clk sc)
  with generateStrategy_preserves[of I s clk sc] add s
  show ?thesis by simp
next
  case (GetMemorySummary n)
  with s show ?thesis by simp
next
  case GetThreatAssessment
  with s show ?thesis by simp
qed

lemma run_preserves:
  assumes add: "\<And>clk ty pid text conf rel src s. I s \<Longrightarrow> unitInterval conf \<Longrightarrow> unitInterval rel \<Longrightarrow>
                  I (addMemory clk ty pid text conf rel src s)"
    and prof: "\<And>pid an alive s. I s \<Longrightarrow> I (updatePlayerProfile pid an alive s)"
    and ctx: "\<And>r ph s. I s \<Longrightarrow> I (updateGameContext r ph s)"
  shows "I s \<Longrightarrow> I (run calls s)"
  unfolding run_def
proof (induction calls arbitrary: s)
  case Nil
  then show ?case by simp
next
  case (Cons c calls)
  from call_preserves[of I s c] add prof ctx Cons.prems have "I (call s c)" by blast
  from Cons.IH[OF this] show ?case by simp
qed


section \<open>Invariants of the reachable states\<close>


lemma set_Map_set: "set (Map_set m k v) \<subseteq> insert (k, v) (set m)"
  by (induction m) (auto split: if_splits)

lemma Map_get_in_set: "Map_get m k = Some v \<Longrightarrow> (k, v) \<in> set m"
  by (simp add: Map_get_def map_of_SomeD)

lemma updatePlayerProfile_entries:
  assumes "e \<in> set (playerProfiles (updatePlayerProfile pid an alive s))"
  shows "e \<in> set (playerProfiles s) \<or>
         (\<exists>p0. (Map_get (playerProfiles s) pid = Some p0 \<or>
                 (Map_get (playerProfiles s) pid = None \<and>
                  p0 = \<lparr>pp_playerId = pid, suspectedRole = None, pp_confidence = 0,
                        behaviors = [], contradictions = [], alliances = [],
                        threats = [], lastUpdated = currentRound (gameContext s)\<rparr>)) \<and>
               contradictions (snd e) = contradictions p0 \<and>
               suspectedRole (snd e) = suspectedRole p0 \<and>
               pp_confidence (snd e) = pp_confidence p0)"
proof -
  let ?p0 = "case Map_get (playerProfiles s) pid of
                        Some p \<Rightarrow> p
                      | None \<Rightarrow> \<lparr>pp_playerId = pid, suspectedRole = None, pp_confidence = 0,
                                  behaviors = [], contradictions = [], alliances = [],
                                  threats = [], lastUpdated = currentRound (gameContext s)\<rparr>"
  from assms obtain p2 where "e \<in> set (Map_set (playerProfiles s) pid p2)"
    and "contradictions p2 = contradictions ?p0" "suspectedRole p2 = suspectedRole ?p0"
    "pp_confidence p2 = pp_confidence ?p0"
    by (auto simp: updatePlayerProfile_def Let_def)
  with set_Map_set[of "playerProfiles s" pid p2] show ?thesis
    by (cases "Map_get (playerProfiles s) pid") auto
qed

lemma profiles_invariant_step:
  assumes "\<forall>e\<in>set (playerProfiles s). contradictions (snd e) = [] \<and> suspectedRole (snd e) = None \<and> pp_confidence (snd e) = 0"
  shows "\<forall>e\<in>set (playerProfiles (updatePlayerProfile pid an alive s)).
           contradictions (snd e) = [] \<and> suspectedRole (snd e) = None \<and> pp_confidence (snd e) = 0"
proof
  fix e assume "e \<in> set (playerProfiles (updatePlayerProfile pid an alive s))"
  from updatePlayerProfile_entries[OF this] assms show
    "contradictions (snd e) = [] \<and> suspectedRole (snd e) = None \<and> pp_confidence (snd e) = 0"
    by (auto dest!: Map_get_in_set)
qed

lemma AIMemorySystem_new_fields [simp]:
  "memories (AIMemorySystem_new role me mates) = []"
  "playerProfiles (AIMemorySystem_new role me mates) = []"
  by (simp_all add: AIMemorySystem_new_def)

lemma profiles_invariant:
  "\<forall>e\<in>set (playerProfiles (run calls (AIMemorySystem_new role me mates))).
     contradictions (snd e) = [] \<and> suspectedRole (snd e) = None \<and> pp_confidence (snd e) = 0"
proof (rule run_preserves[where I = "\<lambda>s. \<forall>e\<in>set (playerProfiles s).
     contradictions (snd e) = [] \<and> suspectedRole (snd e) = None \<and> pp_confidence (snd e) = 0"])
  fix pid an alive and s :: AIMemorySystem
  assume "\<forall>e\<in>set (playerProfiles s).
     contradictions (snd e) = [] \<and> suspectedRole (snd e) = None \<and> pp_confidence (snd e) = 0"
  then show "\<forall>e\<in>set (playerProfiles (updatePlayerProfile pid an alive s)).
     contradictions (snd e) = [] \<and> suspectedRole (snd e) = None \<and> pp_confidence (snd e) = 0"
    by (rule profiles_invariant_step)
qed simp_all

lemma length_invariant:
  "length (memories (run calls (AIMemorySystem_new role me mates))) \<le> 100"
  by (rule run_preserves[where I = "\<lambda>s. length (memories s) \<le> 100"])
    (simp_all add: length_addMemory)

lemma newMemory_scores [simp]:
  "me_confidence (newMemory clk ty pid text conf rel src s) = conf"
  "me_relevance (newMemory clk ty pid text conf rel src s) = rel"
  by (simp_all add: newMemory_def)

lemma entries_invariant_step:
  assumes "\<forall>m\<in>set (memories s). unitInterval (me_confidence m) \<and> unitInterval (me_relevance m)"
    and "unitInterval conf" "unitInterval rel"
  shows "\<forall>m\<in>set (memories (addMemory clk ty pid text conf rel src s)).
           unitInterval (me_confidence m) \<and> unitInterval (me_relevance m)"
  using set_addMemory[of clk ty pid "text" conf rel src s] assms by auto

lemma entries_invariant:
  "\<forall>m\<in>set (memories (run calls (AIMemorySystem_new role me mates))).
     unitInterval (me_confidence m) \<and> unitInterval (me_relevance m)"
proof (rule run_preserves[where I = "\<lambda>s. \<forall>m\<in>set (memories s).
     unitInterval (me_confidence m) \<and> unitInterval (me_relevance m)"])
  fix clk ty pid body conf rel src and s :: AIMemorySystem
  assume "\<forall>m\<in>set (memories s). unitInterval (me_confidence m) \<and> unitInterval (me_relevance m)"
    and "unitInterval conf" and "unitInterval rel"
  then show "\<forall>m\<in>set (memories (addMemory clk ty pid body conf rel src s)).
     unitInterval (me_confidence m) \<and> unitInterval (me_relevance m)"
    by (rule entries_invariant_step)
qed simp_all



section \<open>Facts about threat assessment and role deduction\<close>

lemma threatStep_levels:
  "\<forall>t\<in>set found. unitInterval (th_threatLevel t) \<Longrightarrow>
   \<forall>t\<in>set (threatStep s found e). unitInterval (th_threatLevel t)"
  by (auto simp: threatStep_def Let_def unitInterval_def)

lemma threat_levels_acc:
  "\<forall>t\<in>set found. unitInterval (th_threatLevel t) \<Longrightarrow>
   \<forall>t\<in>set (foldl (threatStep s) found es). unitInterval (th_threatLevel t)"
proof (induction es arbitrary: found)
  case Nil
  then show ?case by simp
next
  case (Cons e es)
  from Cons.IH[OF threatStep_levels[OF Cons.prems]] show ?case by simp
qed

lemma threat_levels: "\<forall>t\<in>set (getThreatAssessment s). unitInterval (th_threatLevel t)"
  unfolding getThreatAssessment_def set_js_sort by (rule threat_levels_acc) simp

lemma deduceStep_deductions:
  assumes "\<forall>e\<in>set (fst st). unitInterval (rd_confidence (snd e))"
  shows "\<forall>e\<in>set (fst (deduceStep clocks allSpeeches allVotes st player)).
           unitInterval (rd_confidence (snd e))"
proof -
  obtain m k s0 where st: "st = (m, k, s0)" by (metis prod_cases3)
  show ?thesis
    using assms set_Map_set[of m "pi_id player" "analyzePlayerRole s0 (pi_id player) allSpeeches allVotes"]
      analyzePlayerRole_unit[of s0 "pi_id player" allSpeeches allVotes]
    by (auto simp: st deduceStep_def Let_def)
qed

lemma deduceRoles_deductions:
  "\<forall>e\<in>set (fst (deduceRoles clocks alive allSpeeches allVotes s)).
     unitInterval (rd_confidence (snd e))"
proof -
  have "\<forall>e\<in>set (fst st). unitInterval (rd_confidence (snd e)) \<Longrightarrow>
        \<forall>e\<in>set (fst (foldl (deduceStep clocks allSpeeches allVotes) st alive)).
           unitInterval (rd_confidence (snd e))" for st
  proof (induction alive arbitrary: st)
    case Nil
    then show ?case by simp
  next
    case (Cons p ps)
    from Cons.IH[OF deduceStep_deductions[OF Cons.prems]] show ?case by simp
  qed
  from this[of "([], 0, s)"] show ?thesis
    by (auto simp: deduceRoles_def split: prod.splits)
qed

lemma threatSignals_no_contradiction:
  assumes "\<not> length (contradictions (snd e)) > 2"
  shows "s_speech_contradictory \<notin> set (snd (threatSignals s e))"
  using assms by (simp add: threatSignals_def Let_def)

lemma analyzePlayerRole_no_boost:
  assumes "\<forall>e\<in>set (playerProfiles s). \<not> length (contradictions (snd e)) > 1"
  shows "analyzePlayerRole s pid allSpeeches allVotes =
         analyzePlayerRole (s\<lparr>playerProfiles := []\<rparr>) pid allSpeeches allVotes"
proof (cases "Map_get (playerProfiles s) pid")
  case None
  then show ?thesis by (simp add: analyzePlayerRole_def Map_get_def)
next
  case (Some p)
  from Map_get_in_set[OF this] assms have "\<not> length (contradictions p) > 1" by force
  with Some show ?thesis by (simp add: analyzePlayerRole_def Map_get_def)
qed


section \<open>Facts about contradiction detection\<close>


lemma analyzeSpeech_types:
  "length (memories s) < 99 \<Longrightarrow>
   map me_type (memories (analyzeSpeech clocks sp allSpeeches alive s)) =
     map me_type (memories s) @ speech_analysis #
       (if detectContradictions (sp_playerId sp) sp allSpeeches \<noteq> [] then [contradiction] else [])"
  by (simp add: analyzeSpeech_def Let_def memories_addMemory newMemory_def)

lemma detect_first_speech:
  "detectContradictions (sp_playerId sp) sp [(r, [sp])] = []"
  by (simp add: detectContradictions_def speechesOf_def contradictionStep_def)

lemma detect_claim_then_denial:
  "detectContradictions 3 seer_denial [(1, [seer_claim]), (2, [seer_denial])] = []"
  by (simp add: detectContradictions_def speechesOf_def seer_claim_def seer_denial_def
      contradictionStep_def toLowerCase_def lowerUnit_def)

lemma detect_denial_then_claim:
  "detectContradictions 3 seer_claim [(1, [seer_denial]), (2, [seer_claim])] =
     [s_role_claim_contradiction]"
  by (simp add: detectContradictions_def speechesOf_def seer_claim_def seer_denial_def
      contradictionStep_def toLowerCase_def lowerUnit_def)

lemma two_speeches_types:
  assumes "sp_playerId a = sp_playerId b"
  shows "map me_type (memories (run
      [AnalyzeSpeech clocks a [(1, [a])] alive, UpdateGameContext 2 DAY,
       AnalyzeSpeech clocks b [(1, [a]), (2, [b])] alive] (AIMemorySystem_new role me mates))) =
     speech_analysis # speech_analysis #
       (if detectContradictions (sp_playerId b) b [(1, [a]), (2, [b])] \<noteq> [] then [contradiction] else [])"
proof -
  let ?s1 = "analyzeSpeech clocks a [(1, [a])] alive (AIMemorySystem_new role me mates)"
  have t1: "map me_type (memories ?s1) = [speech_analysis]"
    by (simp add: analyzeSpeech_types detect_first_speech)
  let ?s2 = "updateGameContext 2 DAY ?s1"
  have t2: "map me_type (memories ?s2) = [speech_analysis]" using t1 by simp
  then have "length (map me_type (memories ?s2)) = 1" by simp
  then have "length (memories ?s2) < 99" by simp
  from analyzeSpeech_types[OF this] t2 show ?thesis by (simp add: run_def)
qed

lemma speaker_ids:
  "sp_playerId seer_claim = 3" "sp_playerId seer_denial = 3"
  by (simp_all add: seer_claim_def seer_denial_def)

lemma claim_then_denial_types: "map me_type (memories (run claim_then_denial observer)) = [speech_analysis, speech_analysis]"
proof -
  have "sp_playerId seer_claim = sp_playerId seer_denial" by (simp add: speaker_ids)
  from two_speeches_types[OF this, of clock_example roster_example VILLAGER 1 None]
  have "map me_type (memories (run claim_then_denial observer)) =
     speech_analysis # speech_analysis #
       (if detectContradictions (sp_playerId seer_denial) seer_denial
             [(1, [seer_claim]), (2, [seer_denial])] \<noteq> [] then [contradiction] else [])"
    unfolding claim_then_denial_def observer_def .
  then show ?thesis by (simp only: speaker_ids detect_claim_then_denial) simp
qed

lemma denial_then_claim_types: "map me_type (memories (run denial_then_claim observer)) = [speech_analysis, speech_analysis, contradiction]"
proof -
  have "sp_playerId seer_denial = sp_playerId seer_claim" by (simp add: speaker_ids)
  from two_speeches_types[OF this, of clock_example roster_example VILLAGER 1 None]
  have "map me_type (memories (run denial_then_claim observer)) =
     speech_analysis # speech_analysis #
       (if detectContradictions (sp_playerId seer_claim) seer_claim
             [(1, [seer_denial]), (2, [seer_claim])] \<noteq> [] then [contradiction] else [])"
    unfolding denial_then_claim_def observer_def .
  then show ?thesis by (simp only: speaker_ids detect_denial_then_claim) simp
qed


section \<open>Facts about the array store\<close>


lemma getMemorySummary_store_unfold:
  "getMemorySummary_store maxEntries a h =
     (let important = slice0 (case maxEntries of Some n \<Rightarrow> n | None \<Rightarrow> 10)
            (js_sort byScoreDesc
               (filter (\<lambda>m. me_relevance m > 0.6 \<and> me_confidence m > 0.5) (h ! a)))
      in (if length important = 0 then s_no_memory
          else s_important_memory @ join s_newline (map memoryLine important),
          h @ [js_sort byScoreDesc
                 (filter (\<lambda>m. me_relevance m > 0.6 \<and> me_confidence m > 0.5) (h ! a)),
               important]))"
  by (simp add: getMemorySummary_store_def arr_filter_def arr_sort_def arr_slice0_def Let_def
      nth_append)

lemma store_output:
  "memories s = h ! a \<Longrightarrow> fst (getMemorySummary_store maxEntries a h) = getMemorySummary maxEntries s"
  by (simp add: getMemorySummary_store_unfold getMemorySummary_def Let_def)

lemma store_unchanged:
  "a < length h \<Longrightarrow> snd (getMemorySummary_store maxEntries a h) ! a = h ! a"
  by (simp add: getMemorySummary_store_unfold Let_def nth_append)

lemma store_prefix:
  "take (length h) (snd (getMemorySummary_store maxEntries a h)) = h"
  by (simp add: getMemorySummary_store_unfold Let_def)

lemma store_twice:
  "a < length h \<Longrightarrow>
   fst (getMemorySummary_store maxEntries a (snd (getMemorySummary_store maxEntries a h))) =
   fst (getMemorySummary_store maxEntries a h)"
  by (simp add: getMemorySummary_store_unfold Let_def nth_append)

section \<open>Facts about the example call sequences\<close>

lemma memories_generateStrategy:
  "memories (snd (generateStrategy clk ctx s)) =
     memories (addMemory clk strategy_mem None
        (s_strategy_colon @ primaryStrategy (fst (generateStrategy clk ctx s)) @ s_bar_reason @
         st_reasoning (fst (generateStrategy clk ctx s))) 0.7 1.0 deduction s)"
  by (simp add: generateStrategy_def Let_def)

lemma plain_insights:
  "si_confidence (extractSpeechInsights plain_speech h) = 1 / 2"
  "si_keywords (extractSpeechInsights plain_speech h) = []"
  by (simp_all add: extractSpeechInsights_def plain_speech_def bucket_def toLowerCase_def
      lowerUnit_def Let_def)

lemma plain_analysis:
  assumes "length (memories s) < 100" and "5 \<notin> set (teammates (gameContext s))"
  shows "\<exists>m. memories (analyzeSpeech clocks plain_speech [(1, [plain_speech])] alive s) =
               memories s @ [m] \<and>
             me_type m = speech_analysis \<and> me_relevance m = 1 / 2 \<and> me_confidence m = 1 / 2"
proof -
  have "detectContradictions (sp_playerId plain_speech) plain_speech [(1, [plain_speech])] = []"
    by (rule detect_first_speech)
  moreover have "sp_playerId plain_speech = 5" by (simp add: plain_speech_def)
  ultimately show ?thesis using assms
    by (simp add: analyzeSpeech_def Let_def memories_addMemory newMemory_def plain_insights
        calculateRelevance_def)
qed

lemma analyzeSpeech_context [simp]:
  "gameContext (analyzeSpeech clocks sp h alive s) = gameContext s"
  by (simp add: analyzeSpeech_def Let_def)

lemma run_plain_speeches:
  assumes "5 \<notin> set (teammates (gameContext s))"
    and "length (memories s) + n \<le> 100"
    and "\<forall>m\<in>set (memories s).
           me_type m = speech_analysis \<and> me_relevance m = 1 / 2 \<and> me_confidence m = 1 / 2"
  shows "length (memories (run (replicate n
            (AnalyzeSpeech clocks plain_speech [(1, [plain_speech])] alive)) s)) =
           length (memories s) + n \<and>
         (\<forall>m\<in>set (memories (run (replicate n
            (AnalyzeSpeech clocks plain_speech [(1, [plain_speech])] alive)) s)).
            me_type m = speech_analysis \<and> me_relevance m = 1 / 2 \<and> me_confidence m = 1 / 2)"
  using assms
proof (induction n arbitrary: s)
  case 0
  then show ?case by (simp add: run_def)
next
  case (Suc n)
  let ?s1 = "analyzeSpeech clocks plain_speech [(1, [plain_speech])] alive s"
  from Suc.prems have "length (memories s) < 100" by simp
  from plain_analysis[OF this Suc.prems(1), where clocks = clocks and alive = alive] obtain m
    where m: "memories ?s1 = memories s @ [m]" "me_type m = speech_analysis"
      "me_relevance m = 1 / 2" "me_confidence m = 1 / 2" by blast
  have "5 \<notin> set (teammates (gameContext ?s1))" using Suc.prems(1) by simp
  moreover have "length (memories ?s1) + n \<le> 100" using Suc.prems(2) m(1) by simp
  moreover have "\<forall>m\<in>set (memories ?s1).
           me_type m = speech_analysis \<and> me_relevance m = 1 / 2 \<and> me_confidence m = 1 / 2"
    using Suc.prems(3) m by simp
  ultimately have "length (memories (run (replicate n
            (AnalyzeSpeech clocks plain_speech [(1, [plain_speech])] alive)) ?s1)) =
           length (memories ?s1) + n \<and>
         (\<forall>m\<in>set (memories (run (replicate n
            (AnalyzeSpeech clocks plain_speech [(1, [plain_speech])] alive)) ?s1)).
            me_type m = speech_analysis \<and> me_relevance m = 1 / 2 \<and> me_confidence m = 1 / 2)"
    by (rule Suc.IH)
  with m(1) show ?case by (simp add: run_def)
qed

lemma sort_key_snoc_least:
  "\<forall>y\<in>set xs. f x < f y \<Longrightarrow> sorted (map f xs) \<Longrightarrow> sort_key f (xs @ [x]) = x # xs"
proof (induction xs)
  case Nil
  then show ?case by simp
next
  case (Cons y ys)
  then have "sort_key f (ys @ [x]) = x # ys" by simp
  then have "sort_key f ((y # ys) @ [x]) = insort_key f y (x # ys)" by simp
  also have "\<dots> = x # insort_key f y ys"
  proof -
    from Cons.prems(1) have "\<not> f y \<le> f x" by (simp add: not_le)
    then show ?thesis by simp
  qed
  also have "insort_key f y ys = y # ys"
    using Cons.prems(2) by (intro insort_is_Cons) simp
  finally show ?case by simp
qed

lemma map_constant: "\<forall>x\<in>set xs. g x = c \<Longrightarrow> map g xs = replicate (length xs) c"
  by (induction xs) auto


lemma run_snoc: "run (calls @ [c]) s = call (run calls s) c"
  by (simp add: run_def)

lemma Map_set_nonempty: "Map_set m k v \<noteq> []"
  by (cases m) (auto split: if_splits)

lemma analyzeSpeech_profiles_nonempty:
  "playerProfiles (analyzeSpeech clocks sp allSpeeches alive s) \<noteq> []"
  by (simp add: analyzeSpeech_def updatePlayerProfile_def Let_def Map_set_nonempty)

section \<open>Properties of the WerewolfCommunicationSystem\<close>

text \<open>
  C4.  \<^verbatim>\<open>negotiateKillTarget\<close> is claimed never to raise, also when the suggestion list,
  the target candidates and the alive players are all empty.  On that input the fallback
  chain of \<^verbatim>\<open>makeTeamDecision\<close> reaches \<^verbatim>\<open>context.alivePlayers[0].id\<close> and the call
  raises a TypeError; no decision is returned and none is stored.
\<close>

theorem negotiateKillTarget_empty_roster_raises:
  "negotiateKillTarget (ctx\<lparr>alivePlayers := [], targetCandidates := []\<rparr>) [] s = Inl TypeError"
  by (simp add: negotiateKillTarget_def analyzeTargetSuggestions_def makeTeamDecision_def
      Map_get_def)


text \<open>
  C6.  Without suggestions and with the target candidates 5 and 7, \<^verbatim>\<open>negotiateKillTarget\<close>
  returns and stores a decision whose target is player 5, the first candidate, whose
  consensus flag is false and whose reason is the default one.
\<close>

theorem negotiateKillTarget_first_candidate:
  "\<exists>d. negotiateKillTarget (ctx\<lparr>targetCandidates := [5, 7]\<rparr>) [] s =
          Inr (d, s\<lparr>teamDecisions := teamDecisions s @ [d]\<rparr>) \<and>
        targetPlayerId d = 5 \<and> \<not> consensus d \<and> reason d = s_default_choice \<and>
        participatingMembers d = aliveWerewolves ctx"
  by (simp add: negotiateKillTarget_def analyzeTargetSuggestions_def makeTeamDecision_def
      Map_get_def)

theorem negotiateKillTarget_first_candidate_witness:
  "negotiateKillTarget (context_example\<lparr>targetCandidates := [5, 7]\<rparr>) []
     WerewolfCommunicationSystem_new =
   Inr (\<lparr>targetPlayerId = 5, reason = s_default_choice, consensus = False,
         participatingMembers = [1, 2, 3, 4], finalDecisionMaker = Some 1\<rparr>,
        \<lparr>messages = [],
         teamDecisions = [\<lparr>targetPlayerId = 5, reason = s_default_choice, consensus = False,
                            participatingMembers = [1, 2, 3, 4],
                            finalDecisionMaker = Some 1\<rparr>],
         communicationHistory = []\<rparr>)"
  using negotiateKillTarget_first_candidate[of context_example WerewolfCommunicationSystem_new]
  by (simp add: negotiateKillTarget_def analyzeTargetSuggestions_def makeTeamDecision_def
      Map_get_def context_example_def WerewolfCommunicationSystem_new_def)

text \<open>
  C7.  The god-role markers are the three seer keywords and the four witch keywords of the
  situation scan, here as code units: "seer" (U+9884 U+8A00 U+5BB6), "inspect", "last
  night I checked", "witch", "potion", "save someone" and "poison to death".  When the
  speech history, read round by round, holds a speech of a player outside the werewolf
  team whose text contains one of the markers, and every speech before it is by a werewolf
  or contains none of them, \<^verbatim>\<open>generateWerewolfCommunication\<close> returns a target suggestion
  of high priority whose suggested target is the speaker of that speech.  This holds
  whether or not any speech voices suspicion of a werewolf.
\<close>

theorem generateWerewolfCommunication_first_god_role:
  assumes scan: "concat (map snd allSpeeches) = earlier @ sp # later"
    and outsider: "sp_playerId sp \<notin> set (werewolfTeam ctx)"
    and marker:
      "\<exists>kw\<in>{[39044, 35328, 23478], [26597, 39564], [26152, 26202, 25105, 26597, 20102],
                   [22899, 24043], [33647, 27700], [25937, 20154], [27602, 27515]}.
         \<exists>pre post. sp_content sp = pre @ kw @ post"
    and first:
      "\<forall>x\<in>set earlier. sp_playerId x \<in> set (werewolfTeam ctx) \<or>
         \<not> (\<exists>kw\<in>{[39044, 35328, 23478], [26597, 39564], [26152, 26202, 25105, 26597, 20102],
                   [22899, 24043], [33647, 27700], [25937, 20154], [27602, 27515]}.
              \<exists>pre post. sp_content x = pre @ kw @ post)"
  shows "messageType (fst (generateWerewolfCommunication clk sender ctx allSpeeches allVotes s))
           = target_suggestion \<and>
         priority (fst (generateWerewolfCommunication clk sender ctx allSpeeches allVotes s))
           = high \<and>
         suggestedTarget (fst (generateWerewolfCommunication clk sender ctx allSpeeches allVotes s))
           = Some (sp_playerId sp)"
proof -
  from outsider marker have "godRoleSpeech ctx sp"
    by (simp only: godRoleSpeech_iff) blast
  moreover from first have "\<forall>x\<in>set earlier. \<not> godRoleSpeech ctx x"
    by (simp only: godRoleSpeech_iff) blast
  ultimately have "find (godRoleSpeech ctx) (speechesInOrder allSpeeches) = Some sp"
    unfolding speechesInOrder_def scan by (rule find_first)
  from situation_first_candidate[OF this, of allVotes] show ?thesis
    by (auto simp: generateWerewolfCommunication_def Let_def generateCommunicationContent_def)
qed

theorem generateWerewolfCommunication_first_god_role_witness:
  "messageType (fst (generateWerewolfCommunication (clock_example 0) 1 context_example
      speeches_example [] WerewolfCommunicationSystem_new)) = target_suggestion \<and>
   priority (fst (generateWerewolfCommunication (clock_example 0) 1 context_example
      speeches_example [] WerewolfCommunicationSystem_new)) = high \<and>
   suggestedTarget (fst (generateWerewolfCommunication (clock_example 0) 1 context_example
      speeches_example [] WerewolfCommunicationSystem_new)) = Some 6"
proof -
  let ?claim = "\<lparr>sp_playerId = 6, sp_content = s_i_am_seer\<rparr>"
  have scan: "concat (map snd speeches_example) =
      [\<lparr>sp_playerId = 1, sp_content = s_i_am_seer\<rparr>,
       \<lparr>sp_playerId = 5, sp_content = s_general_speech\<rparr>] @ ?claim #
      [\<lparr>sp_playerId = 7, sp_content = s_witch_primary\<rparr>]"
    by (simp add: speeches_example_def)
  have outsider: "sp_playerId ?claim \<notin> set (werewolfTeam context_example)"
    by (simp add: context_example_def)
  have marker: "\<exists>kw\<in>{[39044, 35328, 23478], [26597, 39564], [26152, 26202, 25105, 26597, 20102],
                   [22899, 24043], [33647, 27700], [25937, 20154], [27602, 27515]}.
         \<exists>pre post. sp_content ?claim = pre @ kw @ post"
    unfolding js_includes_iff [symmetric] by simp
  have first: "\<forall>x\<in>set [\<lparr>sp_playerId = 1, sp_content = s_i_am_seer\<rparr>,
                          \<lparr>sp_playerId = 5, sp_content = s_general_speech\<rparr>].
         sp_playerId x \<in> set (werewolfTeam context_example) \<or>
         \<not> (\<exists>kw\<in>{[39044, 35328, 23478], [26597, 39564], [26152, 26202, 25105, 26597, 20102],
                   [22899, 24043], [33647, 27700], [25937, 20154], [27602, 27515]}.
              \<exists>pre post. sp_content x = pre @ kw @ post)"
    unfolding js_includes_iff [symmetric] by (simp add: context_example_def)
  from generateWerewolfCommunication_first_god_role[OF scan outsider marker first,
      of "clock_example 0" 1 "[]" WerewolfCommunicationSystem_new]
  show ?thesis by simp
qed

text \<open>
  C8.  \<^verbatim>\<open>cleanup(currentRound)\<close> keeps, in their order, exactly the messages and the
  history buckets whose round is at most three rounds older than the current round, that is
  with \<^verbatim>\<open>currentRound - round <= 3\<close>, and removes all others; the stored decisions stay.
  For a message of a round up to the current one this is the test that the two rounds
  differ by at most 3.
  In particular \<^verbatim>\<open>cleanup(10)\<close> removes every message and bucket of a round up to 6 and
  keeps every message and bucket of the rounds 7 to 10.
\<close>

theorem cleanup_removes_exactly_old_rounds:
  "messages (cleanup cur s) =
     filter (\<lambda>m. \<not> int cur - int (wm_round m) > 3) (messages s) \<and>
   communicationHistory (cleanup cur s) =
     filter (\<lambda>e. \<not> int cur - int (fst e) > 3) (communicationHistory s) \<and>
   teamDecisions (cleanup cur s) = teamDecisions s \<and>
   (\<forall>m\<in>set (messages s). wm_round m \<le> cur \<longrightarrow>
      (m \<in> set (messages (cleanup cur s)) \<longleftrightarrow>
       \<not> \<bar>int cur - int (wm_round m)\<bar> > 3)) \<and>
   (\<forall>m\<in>set (messages s).
      (wm_round m \<le> 6 \<longrightarrow> m \<notin> set (messages (cleanup 10 s))) \<and>
      (wm_round m \<in> {7, 8, 9, 10} \<longrightarrow> m \<in> set (messages (cleanup 10 s)))) \<and>
   (\<forall>e\<in>set (communicationHistory s).
      (fst e \<le> 6 \<longrightarrow> e \<notin> set (communicationHistory (cleanup 10 s))) \<and>
      (fst e \<in> {7, 8, 9, 10} \<longrightarrow> e \<in> set (communicationHistory (cleanup 10 s))))"
proof (intro conjI)
  show "messages (cleanup cur s) =
     filter (\<lambda>m. \<not> int cur - int (wm_round m) > 3) (messages s)"
    by (rule cleanup_messages)
  show "communicationHistory (cleanup cur s) =
     filter (\<lambda>e. \<not> int cur - int (fst e) > 3) (communicationHistory s)"
    by (rule cleanup_history)
  show "teamDecisions (cleanup cur s) = teamDecisions s"
    by (simp add: cleanup_def)
  show "\<forall>m\<in>set (messages s). wm_round m \<le> cur \<longrightarrow>
      (m \<in> set (messages (cleanup cur s)) \<longleftrightarrow>
       \<not> \<bar>int cur - int (wm_round m)\<bar> > 3)"
    by (auto simp: cleanup_messages)
  show "\<forall>m\<in>set (messages s).
      (wm_round m \<le> 6 \<longrightarrow> m \<notin> set (messages (cleanup 10 s))) \<and>
      (wm_round m \<in> {7, 8, 9, 10} \<longrightarrow> m \<in> set (messages (cleanup 10 s)))"
    by (auto simp: cleanup_messages)
  show "\<forall>e\<in>set (communicationHistory s).
      (fst e \<le> 6 \<longrightarrow> e \<notin> set (communicationHistory (cleanup 10 s))) \<and>
      (fst e \<in> {7, 8, 9, 10} \<longrightarrow> e \<in> set (communicationHistory (cleanup 10 s)))"
    by (auto simp: cleanup_history)
qed

theorem cleanup_removes_exactly_old_rounds_witness:
  "map wm_round (messages log_example) = [3, 6, 7, 10] \<and>
   map fst (communicationHistory log_example) = [3, 6, 7, 10] \<and>
   map wm_round (messages (cleanup 10 log_example)) = [7, 10] \<and>
   map fst (communicationHistory (cleanup 10 log_example)) = [7, 10]"
proof -
  have log: "map wm_round (messages log_example) = [3, 6, 7, 10]"
    "map fst (communicationHistory log_example) = [3, 6, 7, 10]"
    by (simp_all add: log_example_def addMessage_def WerewolfCommunicationSystem_new_def
        Let_def Map_has_def Map_get_def)
  from cleanup_removes_exactly_old_rounds[of 10 log_example]
  have "map wm_round (messages (cleanup 10 log_example)) =
          filter (\<lambda>r. \<not> int 10 - int r > 3) (map wm_round (messages log_example))"
    and "map fst (communicationHistory (cleanup 10 log_example)) =
          filter (\<lambda>r. \<not> int 10 - int r > 3) (map fst (communicationHistory log_example))"
    by (simp_all add: filter_map comp_def)
  with log show ?thesis by simp
qed

section \<open>Properties of the AIMemorySystem\<close>

text \<open>
  C1.  After every sequence of public calls on a new memory system at most 100 entries are
  stored, and a single insertion into any state leaves at most 100.  The entry an insertion
  builds carries the given type, player, text, confidence, relevance and source and the
  current round.  An insertion that finds 100 or more entries sorts the old entries and the
  new one by the product of relevance and confidence in descending order (stably) and
  keeps the first 80 of them; an insertion that finds fewer than 100 appends the new entry.
\<close>

theorem memory_store_capacity:
  "length (memories (run calls (AIMemorySystem_new role me mates))) \<le> 100 \<and>
   length (memories (addMemory clk ty pid text conf rel src s)) \<le> 100 \<and>
   (me_type (newMemory clk ty pid text conf rel src s) = ty \<and>
    me_playerId (newMemory clk ty pid text conf rel src s) = pid \<and>
    me_content (newMemory clk ty pid text conf rel src s) = text \<and>
    me_confidence (newMemory clk ty pid text conf rel src s) = conf \<and>
    me_relevance (newMemory clk ty pid text conf rel src s) = rel \<and>
    me_source (newMemory clk ty pid text conf rel src s) = src \<and>
    me_round (newMemory clk ty pid text conf rel src s) = currentRound (gameContext s)) \<and>
   (length (memories s) \<ge> 100 \<longrightarrow>
      memories (addMemory clk ty pid text conf rel src s) =
        take 80 (sort_key (\<lambda>m. - (me_relevance m * me_confidence m))
                   (memories s @ [newMemory clk ty pid text conf rel src s])) \<and>
      length (memories (addMemory clk ty pid text conf rel src s)) = 80 \<and>
      sorted_wrt (\<lambda>a b. me_relevance a * me_confidence a \<ge> me_relevance b * me_confidence b)
        (memories (addMemory clk ty pid text conf rel src s))) \<and>
   (length (memories s) < 100 \<longrightarrow>
      memories (addMemory clk ty pid text conf rel src s) =
        memories s @ [newMemory clk ty pid text conf rel src s])"
proof (intro conjI impI)
  show "length (memories (run calls (AIMemorySystem_new role me mates))) \<le> 100"
    by (rule length_invariant)
  show "length (memories (addMemory clk ty pid text conf rel src s)) \<le> 100"
    by (rule length_addMemory)
  show "me_type (newMemory clk ty pid text conf rel src s) = ty"
    and "me_playerId (newMemory clk ty pid text conf rel src s) = pid"
    and "me_content (newMemory clk ty pid text conf rel src s) = text"
    and "me_confidence (newMemory clk ty pid text conf rel src s) = conf"
    and "me_relevance (newMemory clk ty pid text conf rel src s) = rel"
    and "me_source (newMemory clk ty pid text conf rel src s) = src"
    and "me_round (newMemory clk ty pid text conf rel src s) = currentRound (gameContext s)"
    by (simp_all add: newMemory_def)
next
  assume full: "length (memories s) \<ge> 100"
  then show "memories (addMemory clk ty pid text conf rel src s) =
        take 80 (sort_key (\<lambda>m. - (me_relevance m * me_confidence m))
                   (memories s @ [newMemory clk ty pid text conf rel src s]))"
    by (simp add: memories_addMemory js_sort_byScoreDesc memoryScore_def)
  from full show "length (memories (addMemory clk ty pid text conf rel src s)) = 80"
    by (simp add: memories_addMemory length_js_sort)
  from full evicted_sorted[of 80 "memories s @ [newMemory clk ty pid text conf rel src s]"]
  show "sorted_wrt (\<lambda>a b. me_relevance a * me_confidence a \<ge> me_relevance b * me_confidence b)
        (memories (addMemory clk ty pid text conf rel src s))"
    by (simp add: memories_addMemory memoryScore_def)
next
  assume "length (memories s) < 100"
  then show "memories (addMemory clk ty pid text conf rel src s) =
        memories s @ [newMemory clk ty pid text conf rel src s]"
    by (simp add: memories_addMemory)
qed

theorem memory_store_capacity_witness:
  "length (memories (run hundred_speeches observer)) = 100 \<and>
   map (\<lambda>m. me_relevance m * me_confidence m) (memories (run hundred_speeches observer)) =
     replicate 100 (1 / 4) \<and>
   map (\<lambda>m. me_relevance m * me_confidence m)
     (memories (run (hundred_speeches @
        [GenerateStrategy (clock_example 0) strategy_context_example]) observer)) =
     7 / 10 # replicate 79 (1 / 4) \<and>
   map me_type
     (memories (run (hundred_speeches @
        [GenerateStrategy (clock_example 0) strategy_context_example]) observer)) =
     strategy_mem # replicate 79 speech_analysis"
proof -
  let ?s = "run hundred_speeches observer"
  let ?ms = "memories ?s"
  let ?key = "\<lambda>m. - (me_relevance m * me_confidence m)"
  have "5 \<notin> set (teammates (gameContext observer))"
    and "length (memories observer) + 100 \<le> 100"
    by (simp_all add: observer_def AIMemorySystem_new_def)
  from run_plain_speeches[OF this, of clock_example roster_example]
  have full: "length ?ms = 100"
    and plain: "\<forall>m\<in>set ?ms. me_type m = speech_analysis \<and> me_relevance m = 1 / 2 \<and>
                   me_confidence m = 1 / 2"
    by (simp_all add: hundred_speeches_def observer_def)
  let ?text = "s_strategy_colon @
      primaryStrategy (fst (generateStrategy (clock_example 0) strategy_context_example ?s)) @
      s_bar_reason @
      st_reasoning (fst (generateStrategy (clock_example 0) strategy_context_example ?s))"
  let ?new = "newMemory (clock_example 0) strategy_mem None ?text (7 / 10) 1 deduction ?s"
  from full have "length ?ms \<ge> 100" by simp
  with memory_store_capacity[of _ _ _ _ "clock_example 0" strategy_mem None ?text "7 / 10" 1
      deduction ?s]
  have new: "me_type ?new = strategy_mem" "me_confidence ?new = 7 / 10" "me_relevance ?new = 1"
    and kept: "memories (addMemory (clock_example 0) strategy_mem None ?text (7 / 10) 1
      deduction ?s) = take 80 (sort_key ?key (?ms @ [?new]))"
    by blast+
  have prod: "\<forall>m\<in>set ?ms. me_relevance m * me_confidence m = 1 / 4"
  proof
    fix m assume "m \<in> set ?ms"
    with plain have r: "me_relevance m = 1 / 2" and c: "me_confidence m = 1 / 2" by blast+
    show "me_relevance m * me_confidence m = 1 / 4" unfolding r c by simp
  qed
  then have "map ?key ?ms = replicate (length ?ms) (- (1 / 4))"
    by (intro map_constant) simp
  then have "sorted (map ?key ?ms)" by (simp only: sorted_replicate)
  moreover have "\<forall>y\<in>set ?ms. ?key ?new < ?key y"
  proof
    fix y assume "y \<in> set ?ms"
    with prod have "me_relevance y * me_confidence y = 1 / 4" by blast
    then show "?key ?new < ?key y" unfolding new by simp
  qed
  ultimately have "sort_key ?key (?ms @ [?new]) = ?new # ?ms"
    by (intro sort_key_snoc_least)
  with kept have "memories (call ?s (GenerateStrategy (clock_example 0) strategy_context_example))
      = ?new # take 79 ?ms"
    by (simp add: memories_generateStrategy)
  then have after: "memories (run (hundred_speeches @
        [GenerateStrategy (clock_example 0) strategy_context_example]) observer) =
      ?new # take 79 ?ms"
    by (simp only: run_snoc)
  from prod have "\<forall>m\<in>set (take 79 ?ms). me_relevance m * me_confidence m = 1 / 4"
    by (blast dest: in_set_takeD)
  then have t1: "map (\<lambda>m. me_relevance m * me_confidence m) (take 79 ?ms) =
      replicate (length (take 79 ?ms)) (1 / 4)"
    by (rule map_constant)
  from plain have "\<forall>m\<in>set (take 79 ?ms). me_type m = speech_analysis"
    by (blast dest: in_set_takeD)
  then have t2: "map me_type (take 79 ?ms) = replicate (length (take 79 ?ms)) speech_analysis"
    by (rule map_constant)
  from t1 t2 full have tail: "map (\<lambda>m. me_relevance m * me_confidence m) (take 79 ?ms) =
      replicate 79 (1 / 4)"
    "map me_type (take 79 ?ms) = replicate 79 speech_analysis"
    by simp_all
  from prod have "map (\<lambda>m. me_relevance m * me_confidence m) ?ms =
      replicate (length ?ms) (1 / 4)"
    by (rule map_constant)
  with full have before: "map (\<lambda>m. me_relevance m * me_confidence m) ?ms =
      replicate 100 (1 / 4)" by simp
  have "me_relevance ?new * me_confidence ?new = 7 / 10" unfolding new by simp
  with full before after tail new(1) show ?thesis by (simp only: list.map)
qed

text \<open>
  C2.  In every state reached by public calls on a new memory system, the confidence and
  the relevance of every stored entry and the confidence of every profile lie in the
  closed interval from 0 to 1.  So does every score the system hands out in any state:
  the threat levels of \<^verbatim>\<open>getThreatAssessment\<close>, the confidences in the map returned by
  \<^verbatim>\<open>deduceRoles\<close> and computed by \<^verbatim>\<open>analyzePlayerRole\<close>, the confidence of a speech
  analysis, the relevance of a new entry and the confidence of a voting pattern.
\<close>

theorem scores_in_unit_interval:
  "(\<forall>m\<in>set (memories (run calls (AIMemorySystem_new role me mates))).
      unitInterval (me_confidence m) \<and> unitInterval (me_relevance m)) \<and>
   (\<forall>e\<in>set (playerProfiles (run calls (AIMemorySystem_new role me mates))).
      unitInterval (pp_confidence (snd e))) \<and>
   (\<forall>t\<in>set (getThreatAssessment s). unitInterval (th_threatLevel t)) \<and>
   (\<forall>e\<in>set (fst (deduceRoles clocks alive allSpeeches allVotes s)).
      unitInterval (rd_confidence (snd e))) \<and>
   unitInterval (rd_confidence (analyzePlayerRole s p allSpeeches allVotes)) \<and>
   unitInterval (si_confidence (extractSpeechInsights sp allSpeeches)) \<and>
   unitInterval (calculateRelevance s p kws) \<and>
   (\<forall>vp\<in>set (extractVotingPatterns vs allVotes). unitInterval (vp_confidence vp))"
proof (intro conjI)
  show "\<forall>m\<in>set (memories (run calls (AIMemorySystem_new role me mates))).
      unitInterval (me_confidence m) \<and> unitInterval (me_relevance m)"
    by (rule entries_invariant)
  show "\<forall>e\<in>set (playerProfiles (run calls (AIMemorySystem_new role me mates))).
      unitInterval (pp_confidence (snd e))"
    using profiles_invariant[of calls role me mates] by (simp add: unitInterval_def)
  show "\<forall>t\<in>set (getThreatAssessment s). unitInterval (th_threatLevel t)"
    by (rule threat_levels)
  show "\<forall>e\<in>set (fst (deduceRoles clocks alive allSpeeches allVotes s)).
      unitInterval (rd_confidence (snd e))"
    by (rule deduceRoles_deductions)
  show "unitInterval (rd_confidence (analyzePlayerRole s p allSpeeches allVotes))"
    by (rule analyzePlayerRole_unit)
  show "unitInterval (si_confidence (extractSpeechInsights sp allSpeeches))"
    by (rule insights_confidence)
  show "unitInterval (calculateRelevance s p kws)"
    by (rule relevance_unit)
  show "\<forall>vp\<in>set (extractVotingPatterns vs allVotes). unitInterval (vp_confidence vp)"
    by (rule patterns_confidence)
qed

theorem scores_in_unit_interval_witness:
  "memories (run denial_then_claim observer) \<noteq> [] \<and>
   list_all (\<lambda>m. unitInterval (me_confidence m) \<and> unitInterval (me_relevance m))
     (memories (run denial_then_claim observer)) \<and>
   map th_threatLevel (getThreatAssessment suspicious_state) = [1] \<and>
   list_all (\<lambda>t. unitInterval (th_threatLevel t)) (getThreatAssessment suspicious_state)"
proof -
  have "map me_type (memories (run denial_then_claim observer)) \<noteq> []"
    by (simp add: denial_then_claim_types)
  then have ne: "memories (run denial_then_claim observer) \<noteq> []" by auto
  have th: "map th_threatLevel (getThreatAssessment suspicious_state) = [1]"
    by (simp add: getThreatAssessment_def suspicious_state_def observer_def
        AIMemorySystem_new_def threatStep_def threatSignals_def Let_def)
  from scores_in_unit_interval[of denial_then_claim VILLAGER 1 None suspicious_state]
  have "list_all (\<lambda>m. unitInterval (me_confidence m) \<and> unitInterval (me_relevance m))
     (memories (run denial_then_claim observer))"
    and "list_all (\<lambda>t. unitInterval (th_threatLevel t)) (getThreatAssessment suspicious_state)"
    by (simp_all add: list_all_iff observer_def)
  with ne th show ?thesis by simp
qed

text \<open>
  C3.  Player 3 says "I am the seer" in round 1 and "I am not the seer" in round 2, and
  each speech is analysed when it is made, the second with both speeches in the history.
  \<^verbatim>\<open>detectContradictions\<close> tests only whether the present speech claims a role that an
  earlier speech denied: for the claim followed by the denial it finds nothing, and the
  memory holds the two speech analyses and no contradiction entry.  The same two speeches
  in the opposite order do produce the contradiction entry.
\<close>

theorem claim_then_denial_not_detected:
  "detectContradictions 3 seer_denial [(1, [seer_claim]), (2, [seer_denial])] = [] \<and>
   map me_type (memories (run claim_then_denial observer)) =
     [speech_analysis, speech_analysis] \<and>
   map me_type (memories (run denial_then_claim observer)) =
     [speech_analysis, speech_analysis, contradiction]"
  by (simp only: detect_claim_then_denial claim_then_denial_types denial_then_claim_types)

text \<open>
  C9.  \<^verbatim>\<open>getMemorySummary\<close> sorts the array its \<^verbatim>\<open>filter\<close> call allocates, never the
  array of stored entries: on any store in which \<^verbatim>\<open>this.memories\<close> is a valid reference,
  a call leaves the stored entries and every other array present before it unchanged,
  a second call with the same argument returns the same string, and that string is the
  one the state-passing function computes, which leaves the system as it is.
\<close>

theorem getMemorySummary_idempotent:
  assumes "memoriesRef < length h"
  shows "fst (getMemorySummary_store maxEntries memoriesRef
                (snd (getMemorySummary_store maxEntries memoriesRef h))) =
           fst (getMemorySummary_store maxEntries memoriesRef h) \<and>
         snd (getMemorySummary_store maxEntries memoriesRef h) ! memoriesRef = h ! memoriesRef \<and>
         take (length h) (snd (getMemorySummary_store maxEntries memoriesRef h)) = h \<and>
         (memories s = h ! memoriesRef \<longrightarrow>
            fst (getMemorySummary_store maxEntries memoriesRef h) =
              getMemorySummary maxEntries s) \<and>
         call s (GetMemorySummary maxEntries) = s"
  using assms
  by (simp add: store_twice store_unchanged store_prefix store_output)

theorem getMemorySummary_idempotent_witness:
  "fst (getMemorySummary_store (Some 5) 0
          (snd (getMemorySummary_store (Some 5) 0 [memories (run denial_then_claim observer)]))) =
     getMemorySummary (Some 5) (run denial_then_claim observer) \<and>
   snd (getMemorySummary_store (Some 5) 0 [memories (run denial_then_claim observer)]) ! 0 =
     memories (run denial_then_claim observer)"
  using getMemorySummary_idempotent[of 0 "[memories (run denial_then_claim observer)]"
      "Some 5" "run denial_then_claim observer"]
  by simp

text \<open>
  C10.  No public call appends to the contradictions of a profile: in every state reached
  from a new memory system every profile has an empty list of contradictions.  Hence the
  tests \<^verbatim>\<open>contradictions.length > 2\<close> of the threat assessment and
  \<^verbatim>\<open>contradictions.length > 1\<close> of the role analysis fail for every profile, the threat
  signals of no profile carry the reason for contradictory speech, and the role analysis
  gives the result it gives without any profile.
\<close>

theorem contradictions_never_recorded:
  "(\<forall>e\<in>set (playerProfiles (run calls (AIMemorySystem_new role me mates))).
      contradictions (snd e) = [] \<and>
      \<not> length (contradictions (snd e)) > 2 \<and>
      \<not> length (contradictions (snd e)) > 1 \<and>
      s_speech_contradictory \<notin>
        set (snd (threatSignals (run calls (AIMemorySystem_new role me mates)) e))) \<and>
   analyzePlayerRole (run calls (AIMemorySystem_new role me mates)) p allSpeeches allVotes =
     analyzePlayerRole ((run calls (AIMemorySystem_new role me mates))\<lparr>playerProfiles := []\<rparr>)
       p allSpeeches allVotes"
proof (intro conjI ballI)
  fix e
  assume "e \<in> set (playerProfiles (run calls (AIMemorySystem_new role me mates)))"
  with profiles_invariant[of calls role me mates]
  show empty: "contradictions (snd e) = []" by blast
  then show "\<not> length (contradictions (snd e)) > 2"
    and "\<not> length (contradictions (snd e)) > 1" by simp_all
  from empty show "s_speech_contradictory \<notin>
        set (snd (threatSignals (run calls (AIMemorySystem_new role me mates)) e))"
    by (simp add: threatSignals_no_contradiction)
next
  show "analyzePlayerRole (run calls (AIMemorySystem_new role me mates)) p allSpeeches allVotes =
     analyzePlayerRole ((run calls (AIMemorySystem_new role me mates))\<lparr>playerProfiles := []\<rparr>)
       p allSpeeches allVotes"
    using profiles_invariant[of calls role me mates]
    by (intro analyzePlayerRole_no_boost) simp
qed

theorem contradictions_never_recorded_witness:
  "playerProfiles (run denial_then_claim observer) \<noteq> [] \<and>
   list_all (\<lambda>e. contradictions (snd e) = [])
     (playerProfiles (run denial_then_claim observer)) \<and>
   contradiction \<in> set (map me_type (memories (run denial_then_claim observer)))"
proof -
  have "playerProfiles (run denial_then_claim observer) \<noteq> []"
    by (simp add: denial_then_claim_def run_def analyzeSpeech_profiles_nonempty)
  moreover from contradictions_never_recorded[of denial_then_claim VILLAGER 1 None]
  have "list_all (\<lambda>e. contradictions (snd e) = [])
     (playerProfiles (run denial_then_claim observer))"
    by (simp add: list_all_iff observer_def)
  moreover have "contradiction \<in> set (map me_type (memories (run denial_then_claim observer)))"
    by (simp only: denial_then_claim_types) simp
  ultimately show ?thesis by blast
qed

end
